theory Spec2Isabelle
  imports Complex_Main "HOL-Library.AList"
begin

section \<open>Runtime values of the host language\<close>

text \<open>
  The toolchain is TypeScript, so the values that travel through the constant pool, the
  operand stack and the variable table are JavaScript primitives. A number is an IEEE
  double; the model keeps the finite ones as exact rationals (no rounding to 53 bits, no
  overflow to infinity, one zero without a sign) and has the three special values apart.
  A string is a list of characters; the model's characters are bytes, which is what the
  source sees on ASCII text.
\<close>

datatype number = Fin rat | NaN | PosInf | NegInf

datatype jsvalue = JUndefined | JNull | JBool bool | JNum number | JStr string

subsection \<open>Arithmetic on numbers\<close>

fun num_neg :: "number \<Rightarrow> number" where
  "num_neg (Fin a) = Fin (- a)"
| "num_neg NaN = NaN"
| "num_neg PosInf = NegInf"
| "num_neg NegInf = PosInf"

fun num_add :: "number \<Rightarrow> number \<Rightarrow> number" where
  "num_add NaN _ = NaN"
| "num_add _ NaN = NaN"
| "num_add PosInf NegInf = NaN"
| "num_add NegInf PosInf = NaN"
| "num_add PosInf _ = PosInf"
| "num_add _ PosInf = PosInf"
| "num_add NegInf _ = NegInf"
| "num_add _ NegInf = NegInf"
| "num_add (Fin a) (Fin b) = Fin (a + b)"

definition num_sub :: "number \<Rightarrow> number \<Rightarrow> number" where
  "num_sub a b = num_add a (num_neg b)"

definition inf_of_sign :: "bool \<Rightarrow> number" where
  "inf_of_sign positive = (if positive then PosInf else NegInf)"

fun num_mul :: "number \<Rightarrow> number \<Rightarrow> number" where
  "num_mul NaN _ = NaN"
| "num_mul _ NaN = NaN"
| "num_mul (Fin a) (Fin b) = Fin (a * b)"
| "num_mul (Fin a) PosInf = (if a = 0 then NaN else inf_of_sign (0 < a))"
| "num_mul (Fin a) NegInf = (if a = 0 then NaN else inf_of_sign (a < 0))"
| "num_mul PosInf (Fin b) = (if b = 0 then NaN else inf_of_sign (0 < b))"
| "num_mul NegInf (Fin b) = (if b = 0 then NaN else inf_of_sign (b < 0))"
| "num_mul PosInf PosInf = PosInf"
| "num_mul NegInf NegInf = PosInf"
| "num_mul PosInf NegInf = NegInf"
| "num_mul NegInf PosInf = NegInf"

fun num_div :: "number \<Rightarrow> number \<Rightarrow> number" where
  "num_div NaN _ = NaN"
| "num_div _ NaN = NaN"
| "num_div (Fin a) (Fin b) =
     (if b = 0 then (if a = 0 then NaN else inf_of_sign (0 < a)) else Fin (a / b))"
| "num_div (Fin a) _ = Fin 0"
| "num_div PosInf (Fin b) = inf_of_sign (0 \<le> b)"
| "num_div NegInf (Fin b) = inf_of_sign (b < 0)"
| "num_div _ _ = NaN"

text \<open>
  The remainder operator \<open>%\<close> keeps the sign of the dividend; a zero divisor, an infinite
  dividend and a NaN operand all give NaN, and nothing is thrown.
\<close>

definition rat_trunc :: "rat \<Rightarrow> int" where
  "rat_trunc q = (if 0 \<le> q then \<lfloor>q\<rfloor> else - \<lfloor>- q\<rfloor>)"

fun num_mod :: "number \<Rightarrow> number \<Rightarrow> number" where
  "num_mod NaN _ = NaN"
| "num_mod _ NaN = NaN"
| "num_mod PosInf _ = NaN"
| "num_mod NegInf _ = NaN"
| "num_mod (Fin a) PosInf = Fin a"
| "num_mod (Fin a) NegInf = Fin a"
| "num_mod (Fin a) (Fin b) =
     (if b = 0 then NaN else Fin (a - b * of_int (rat_trunc (a / b))))"

fun num_lt :: "number \<Rightarrow> number \<Rightarrow> bool" where
  "num_lt NaN _ = False"
| "num_lt _ NaN = False"
| "num_lt (Fin a) (Fin b) = (a < b)"
| "num_lt PosInf _ = False"
| "num_lt _ PosInf = True"
| "num_lt _ NegInf = False"
| "num_lt NegInf _ = True"

definition num_is_nan :: "number \<Rightarrow> bool" where
  "num_is_nan n = (case n of NaN \<Rightarrow> True | _ \<Rightarrow> False)"

subsection \<open>Numbers and text\<close>

definition is_digit :: "char \<Rightarrow> bool" where
  "is_digit c = (let k = (of_char c :: nat) in 48 \<le> k \<and> k \<le> 57)"

definition digit_val :: "char \<Rightarrow> nat" where
  "digit_val c = of_char c - 48"

definition digit_char :: "nat \<Rightarrow> char" where
  "digit_char d = char_of (48 + d)"

definition dec_value :: "string \<Rightarrow> nat" where
  "dec_value ds = foldl (\<lambda>a c. 10 * a + digit_val c) 0 ds"

function nat_to_string :: "nat \<Rightarrow> string" where
  "nat_to_string n =
     (if n < 10 then [digit_char n] else nat_to_string (n div 10) @ [digit_char (n mod 10)])"
  by pat_completeness auto
termination
  by (relation "measure id") auto

fun frac_digits :: "nat \<Rightarrow> rat \<Rightarrow> string" where
  "frac_digits 0 r = []"
| "frac_digits (Suc k) r =
     (if r = 0 then []
      else (let d = nat \<lfloor>r * 10\<rfloor> in digit_char d # frac_digits k (r * 10 - of_nat d)))"

text \<open>
  \<open>String(n)\<close> on a number. An integer prints as its decimal digits, which is what the
  host does below \<open>10^21\<close>; another finite number prints its integer part and up to
  sixteen digits of its decimal expansion (the host prints the shortest digits that read
  back as the same double: the two agree on short terminating decimals).
\<close>

definition rat_to_string :: "rat \<Rightarrow> string" where
  "rat_to_string q =
     (let a = \<bar>q\<bar>; i = nat \<lfloor>a\<rfloor>; r = a - of_nat i
      in (if q < 0 then ''-'' else '''') @ nat_to_string i
         @ (if r = 0 then '''' else ''.'' @ frac_digits 16 r))"

fun number_to_string :: "number \<Rightarrow> string" where
  "number_to_string (Fin q) = rat_to_string q"
| "number_to_string NaN = ''NaN''"
| "number_to_string PosInf = ''Infinity''"
| "number_to_string NegInf = ''-Infinity''"

definition is_ws :: "char \<Rightarrow> bool" where
  "is_ws c = (of_char c \<in> {9, 10, 11, 12, 13, 32 :: nat})"

definition trim :: "string \<Rightarrow> string" where
  "trim s = rev (dropWhile is_ws (rev (dropWhile is_ws s)))"

fun starts_with :: "string \<Rightarrow> string \<Rightarrow> bool" where
  "starts_with [] s = True"
| "starts_with (p # ps) [] = False"
| "starts_with (p # ps) (c # cs) = (p = c \<and> starts_with ps cs)"

definition scan_exponent :: "string \<Rightarrow> int \<times> string" where
  "scan_exponent s =
     (case s of
        [] \<Rightarrow> (0, s)
      | c # t \<Rightarrow>
          (if c = CHR ''e'' \<or> c = CHR ''E'' then
             (let neg = starts_with ''-'' t;
                  u = (if starts_with ''-'' t \<or> starts_with ''+'' t then tl t else t);
                  ds = takeWhile is_digit u
              in if ds = [] then (0, s)
                 else ((if neg then - int (dec_value ds) else int (dec_value ds)),
                       dropWhile is_digit u))
           else (0, s)))"

definition pow10 :: "int \<Rightarrow> rat" where
  "pow10 e = (if 0 \<le> e then 10 ^ nat e else 1 / 10 ^ nat (- e))"

text \<open>
  The longest prefix of a string that is a decimal literal of the host (optional sign,
  \<open>Infinity\<close>, or digits with an optional fraction and exponent), with its value and the
  rest of the string.
\<close>

definition scan_decimal :: "string \<Rightarrow> (number \<times> string) option" where
  "scan_decimal s =
     (let neg = starts_with ''-'' s;
          u = (if starts_with ''-'' s \<or> starts_with ''+'' s then tl s else s)
      in if starts_with ''Infinity'' u then Some (inf_of_sign (\<not> neg), drop 8 u)
         else
           (let ds1 = takeWhile is_digit u; r1 = dropWhile is_digit u;
                dot = starts_with ''.'' r1;
                ds2 = (if dot then takeWhile is_digit (tl r1) else []);
                r2 = (if dot then dropWhile is_digit (tl r1) else r1)
            in if ds1 = [] \<and> ds2 = [] then None
               else
                 (let (e, r3) = scan_exponent r2;
                      m = of_nat (dec_value ds1) + of_nat (dec_value ds2) / 10 ^ length ds2;
                      v = m * pow10 e
                  in Some (Fin (if neg then - v else v), r3))))"

definition parseFloat :: "string \<Rightarrow> number" where
  "parseFloat s = (case scan_decimal (dropWhile is_ws s) of None \<Rightarrow> NaN | Some (v, _) \<Rightarrow> v)"

definition radix_digit :: "char \<Rightarrow> nat option" where
  "radix_digit c =
     (let k = (of_char c :: nat)
      in if 48 \<le> k \<and> k \<le> 57 then Some (k - 48)
         else if 97 \<le> k \<and> k \<le> 102 then Some (k - 87)
         else if 65 \<le> k \<and> k \<le> 70 then Some (k - 55)
         else None)"

definition scan_radix :: "nat \<Rightarrow> string \<Rightarrow> number" where
  "scan_radix b ds =
     (if ds \<noteq> [] \<and> list_all (\<lambda>c. case radix_digit c of None \<Rightarrow> False | Some d \<Rightarrow> d < b) ds
      then Fin (of_nat (foldl (\<lambda>a c. b * a + the (radix_digit c)) 0 ds))
      else NaN)"

text \<open>The conversion of a string to a number that the arithmetic operators apply.\<close>

definition string_to_number :: "string \<Rightarrow> number" where
  "string_to_number s =
     (let t = trim s
      in if t = [] then Fin 0
         else if starts_with ''0x'' t \<or> starts_with ''0X'' t then scan_radix 16 (drop 2 t)
         else if starts_with ''0o'' t \<or> starts_with ''0O'' t then scan_radix 8 (drop 2 t)
         else if starts_with ''0b'' t \<or> starts_with ''0B'' t then scan_radix 2 (drop 2 t)
         else (case scan_decimal t of
                 Some (v, []) \<Rightarrow> v
               | _ \<Rightarrow> NaN))"

subsection \<open>Conversions and operators on values\<close>

fun ToNumber :: "jsvalue \<Rightarrow> number" where
  "ToNumber JUndefined = NaN"
| "ToNumber JNull = Fin 0"
| "ToNumber (JBool b) = (if b then Fin 1 else Fin 0)"
| "ToNumber (JNum n) = n"
| "ToNumber (JStr s) = string_to_number s"

fun ToString :: "jsvalue \<Rightarrow> string" where
  "ToString JUndefined = ''undefined''"
| "ToString JNull = ''null''"
| "ToString (JBool b) = (if b then ''true'' else ''false'')"
| "ToString (JNum n) = number_to_string n"
| "ToString (JStr s) = s"

fun truthy :: "jsvalue \<Rightarrow> bool" where
  "truthy JUndefined = False"
| "truthy JNull = False"
| "truthy (JBool b) = b"
| "truthy (JNum n) = (case n of Fin q \<Rightarrow> q \<noteq> 0 | NaN \<Rightarrow> False | _ \<Rightarrow> True)"
| "truthy (JStr s) = (s \<noteq> [])"

definition is_string :: "jsvalue \<Rightarrow> bool" where
  "is_string v = (case v of JStr _ \<Rightarrow> True | _ \<Rightarrow> False)"

text \<open>\<open>a + b\<close>: concatenation as soon as one operand is a string, else numeric addition.\<close>

definition js_add :: "jsvalue \<Rightarrow> jsvalue \<Rightarrow> jsvalue" where
  "js_add a b =
     (if is_string a \<or> is_string b then JStr (ToString a @ ToString b)
      else JNum (num_add (ToNumber a) (ToNumber b)))"

fun str_lt :: "string \<Rightarrow> string \<Rightarrow> bool" where
  "str_lt [] [] = False"
| "str_lt [] (y # ys) = True"
| "str_lt (x # xs) [] = False"
| "str_lt (x # xs) (y # ys) =
     (if x = y then str_lt xs ys else (of_char x :: nat) < of_char y)"

text \<open>
  \<open>a < b\<close>: two strings compare by their characters; any other pair compares as numbers,
  and a comparison with NaN is false.
\<close>

fun js_lt :: "jsvalue \<Rightarrow> jsvalue \<Rightarrow> bool" where
  "js_lt (JStr s) (JStr t) = str_lt s t"
| "js_lt a b = num_lt (ToNumber a) (ToNumber b)"

definition js_gt :: "jsvalue \<Rightarrow> jsvalue \<Rightarrow> bool" where
  "js_gt a b = js_lt b a"

fun js_le :: "jsvalue \<Rightarrow> jsvalue \<Rightarrow> bool" where
  "js_le (JStr s) (JStr t) = (\<not> str_lt t s)"
| "js_le a b =
     (\<not> num_is_nan (ToNumber a) \<and> \<not> num_is_nan (ToNumber b)
      \<and> \<not> num_lt (ToNumber b) (ToNumber a))"

definition js_ge :: "jsvalue \<Rightarrow> jsvalue \<Rightarrow> bool" where
  "js_ge a b = js_le b a"

text \<open>\<open>a === b\<close>: same type and same value; NaN is not equal to itself.\<close>

fun strict_eq :: "jsvalue \<Rightarrow> jsvalue \<Rightarrow> bool" where
  "strict_eq (JNum a) (JNum b) = (\<not> num_is_nan a \<and> a = b)"
| "strict_eq a b = (a = b)"


section \<open>Tokens and errors\<close>

datatype TokenType =
    T_NUMBER | T_STRING | T_IDENTIFIER
  | T_IF | T_ELSE | T_WHILE | T_FOR | T_FUNCTION | T_RETURN | T_VAR | T_TRUE | T_FALSE | T_NULL
  | T_ASSIGN | T_EQUAL | T_NOT_EQUAL | T_LESS_THAN | T_GREATER_THAN | T_LESS_EQUAL
  | T_GREATER_EQUAL | T_PLUS | T_MINUS | T_MULTIPLY | T_DIVIDE | T_MODULO | T_AND | T_OR | T_NOT
  | T_LPAREN | T_RPAREN | T_LBRACE | T_RBRACE | T_SEMICOLON | T_COMMA
  | T_NEWLINE | T_EOF | T_UNKNOWN

text \<open>A token; its fields are the source's \<open>type\<close>, \<open>value\<close>, \<open>line\<close> and \<open>column\<close>.\<close>

record token =
  ttype :: TokenType
  tvalue :: string
  tline :: nat
  tcolumn :: nat

text \<open>
  Everything the pipeline throws. \<open>ParseError\<close> is the parser's own exception with its
  message and token; the others are the \<open>Error\<close> objects of the generator
  (\<open>Undefined variable: name\<close>) and of the virtual machine
  (\<open>Undefined variable at index i\<close>, \<open>Division by zero\<close>, \<open>Unknown opcode: name\<close>), the
  \<open>TypeError\<close> of the host on reading a field of \<open>undefined\<close>, and the refusal of the
  application to compile a text that is empty or blank.
\<close>

datatype error =
    ParseError string token
  | UndefinedVariable string
  | UndefinedVariableAtIndex nat
  | DivisionByZero
  | UnknownOpcode string
  | TypeError
  | NoCode

section \<open>Abstract syntax\<close>

datatype littype = LNumber | LString | LBoolean | LNull

datatype node =
    Program "node list"
  | VarDeclaration string "node option"
  | FunctionDeclaration string "string list" "node list"
  | IfStatement node node "node option"
  | WhileStatement node node
  | ForStatement "node option" "node option" "node option" node
  | ReturnStatement "node option"
  | ExpressionStatement node
  | BinaryExpression node string node
  | UnaryExpression string node
  | CallExpression node "node list"
  | Identifier string
  | Literal jsvalue littype
  | AssignmentExpression string node
  | BlockStatement "node list"

section \<open>Bytecode\<close>

text \<open>
  An instruction is an opcode with the operand the generator gives it: an index into the
  constant pool or the variable table, a jump target, or an argument count. The \<open>line\<close>
  field of the source's instructions is always 1 (the generator never changes
  \<open>currentLine\<close>) and nothing reads it; it is left out.
\<close>

datatype instr =
    LOAD_CONST nat | LOAD_VAR nat | STORE_VAR nat
  | ADD | SUBTRACT | MULTIPLY | DIVIDE | MODULO | NEGATE
  | EQUAL | NOT_EQUAL | LESS_THAN | GREATER_THAN | LESS_EQUAL | GREATER_EQUAL
  | AND | OR | NOT
  | JUMP nat | JUMP_IF_FALSE nat | JUMP_IF_TRUE nat
  | CALL nat | RETURN
  | PRINT nat | INPUT
  | POP | HALT

type_synonym bytecode = "instr list \<times> jsvalue list"


section \<open>Language definitions\<close>

text \<open>
  A language definition, with the two tables the toolchain can consult. The keys of
  \<open>keywords\<close> are in the order of the object literal, which is the order
  \<open>Object.entries\<close> gives them in. The display name, the operator table (every operator
  maps to itself) and the message catalogue of the user interface are left out.
\<close>

record language =
  code :: string
  "keywords" :: "(string \<times> string) list"
  builtins :: "(string \<times> string) list"

definition english :: language where
  "english = \<lparr>code = ''en'',
     keywords = [(''if'', ''if''), (''else'', ''else''), (''while'', ''while''),
       (''for'', ''for''), (''function'', ''function''), (''return'', ''return''),
       (''var'', ''var''), (''true'', ''true''), (''false'', ''false''), (''null'', ''null''),
       (''print'', ''print''), (''input'', ''input'')],
     builtins = [(''print'', ''print''), (''input'', ''input''), (''length'', ''length''),
       (''type'', ''type'')]\<rparr>"

definition tamil :: language where
  "tamil = \<lparr>code = ''ta'',
     keywords = [(''if'', ''yenil''), (''else'', ''illai''), (''while'', ''varai''),
       (''for'', ''ulla''), (''function'', ''seyal''), (''return'', ''thirumbu''),
       (''var'', ''maari''), (''true'', ''unmai''), (''false'', ''poi''),
       (''null'', ''ondrum_illai''), (''print'', ''achchidu''), (''input'', ''ulle'')],
     builtins = [(''print'', ''achchidu''), (''input'', ''ulle''), (''length'', ''neelam''),
       (''type'', ''vaghai'')]\<rparr>"

definition malayalam :: language where
  "malayalam = \<lparr>code = ''ml'',
     keywords = [(''if'', ''engil''), (''else'', ''allengil''), (''while'', ''vare''),
       (''for'', ''ulla''), (''function'', ''pani''), (''return'', ''thirike''),
       (''var'', ''maatti''), (''true'', ''sathyam''), (''false'', ''asathyam''),
       (''null'', ''onnum_illa''), (''print'', ''print''), (''input'', ''input'')],
     builtins = [(''print'', ''print''), (''input'', ''input''), (''length'', ''neelam''),
       (''type'', ''prakaram'')]\<rparr>"

definition telugu :: language where
  "telugu = \<lparr>code = ''te'',
     keywords = [(''if'', ''ayite''), (''else'', ''lekapothe''), (''while'', ''varaku''),
       (''for'', ''kosam''), (''function'', ''pani''), (''return'', ''thirigi''),
       (''var'', ''maaru''), (''true'', ''nijam''), (''false'', ''abaddham''),
       (''null'', ''emiledu''), (''print'', ''print''), (''input'', ''input'')],
     builtins = [(''print'', ''print''), (''input'', ''input''), (''length'', ''neelam''),
       (''type'', ''rakam'')]\<rparr>"

definition hindi :: language where
  "hindi = \<lparr>code = ''hi'',
     keywords = [(''if'', ''agar''), (''else'', ''nahi_to''), (''while'', ''jab_tak''),
       (''for'', ''ke_liye''), (''function'', ''kaam''), (''return'', ''wapas''),
       (''var'', ''badal''), (''true'', ''sach''), (''false'', ''jhooth''),
       (''null'', ''kuch_nahi''), (''print'', ''print''), (''input'', ''input'')],
     builtins = [(''print'', ''print''), (''input'', ''input''), (''length'', ''lambai''),
       (''type'', ''prakar'')]\<rparr>"

definition sanskrit :: language where
  "sanskrit = \<lparr>code = ''sa'',
     keywords = [(''if'', ''yadi''), (''else'', ''anya''), (''while'', ''yavat''),
       (''for'', ''artham''), (''function'', ''karma''), (''return'', ''nivartate''),
       (''var'', ''parivartan''), (''true'', ''satyam''), (''false'', ''asatyam''),
       (''null'', ''shunya''), (''print'', ''print''), (''input'', ''input'')],
     builtins = [(''print'', ''print''), (''input'', ''input''), (''length'', ''dirgha''),
       (''type'', ''prakara'')]\<rparr>"

definition LANGUAGES :: "(string \<times> language) list" where
  "LANGUAGES = [(''english'', english), (''tamil'', tamil), (''malayalam'', malayalam),
     (''telugu'', telugu), (''hindi'', hindi), (''sanskrit'', sanskrit)]"

definition getAllLanguages :: "language list" where
  "getAllLanguages = map snd LANGUAGES"

section \<open>Lexer\<close>

text \<open>
  The lexer's state. The text from \<open>position\<close> on is kept instead of the whole text and
  the index: \<open>source\<close> below is \<open>this.source.slice(this.position)\<close>, so the test
  \<open>position < source.length\<close> is \<open>source \<noteq> []\<close> and \<open>peek()\<close> is its first character.
\<close>

record lexer =
  source :: string
  line :: nat
  column :: nat

definition advance :: "lexer \<Rightarrow> lexer" where
  "advance s =
     (case source s of
        [] \<Rightarrow> s
      | c # rest \<Rightarrow>
          (if c = CHR 0x0A then s\<lparr>source := rest, line := line s + 1, column := 1\<rparr>
           else s\<lparr>source := rest, column := column s + 1\<rparr>))"

function skipWhitespace :: "lexer \<Rightarrow> lexer" where
  "skipWhitespace s =
     (case source s of
        [] \<Rightarrow> s
      | c # rest \<Rightarrow>
          (if c = CHR '' '' \<or> c = CHR 0x09 \<or> c = CHR 0x0D then skipWhitespace (advance s)
           else s))"
  by pat_completeness auto
termination
  by (relation "measure (\<lambda>s. length (source s))") (auto simp: advance_def)

definition is_number_char :: "char \<Rightarrow> bool" where
  \<comment> \<open>\<open>/[0-9.]/\<close>\<close>
  "is_number_char c = (is_digit c \<or> c = CHR ''.'')"

definition is_letter :: "char \<Rightarrow> bool" where
  "is_letter c = (let k = (of_char c :: nat) in (97 \<le> k \<and> k \<le> 122) \<or> (65 \<le> k \<and> k \<le> 90))"

definition is_identifier_start :: "char \<Rightarrow> bool" where
  \<comment> \<open>\<open>/[a-zA-Z_]/\<close>\<close>
  "is_identifier_start c = (is_letter c \<or> c = CHR ''_'')"

definition is_identifier_char :: "char \<Rightarrow> bool" where
  \<comment> \<open>\<open>/[a-zA-Z0-9_]/\<close>\<close>
  "is_identifier_char c = (is_letter c \<or> is_digit c \<or> c = CHR ''_'')"

text \<open>
  The loop shared by \<open>readNumber\<close> and \<open>readIdentifier\<close>: while the next character is in
  the class, append it to \<open>value\<close> and advance.
\<close>

function read_while :: "(char \<Rightarrow> bool) \<Rightarrow> lexer \<Rightarrow> string \<Rightarrow> lexer \<times> string" where
  "read_while cls s val =
     (case source s of
        [] \<Rightarrow> (s, val)
      | c # rest \<Rightarrow> (if cls c then read_while cls (advance s) (val @ [c]) else (s, val)))"
  by pat_completeness auto
termination
  by (relation "measure (\<lambda>(cls, s, val). length (source s))") (auto simp: advance_def)

definition readNumber :: "lexer \<Rightarrow> token \<times> lexer" where
  "readNumber s =
     (let startColumn = column s;
          (s1, val) = read_while is_number_char s []
      in (\<lparr>ttype = T_NUMBER, tvalue = val, tline = line s1, tcolumn = startColumn\<rparr>, s1))"

definition unescape :: "char \<Rightarrow> char" where
  "unescape e =
     (if e = CHR ''n'' then CHR 0x0A
      else if e = CHR ''t'' then CHR 0x09
      else if e = CHR ''r'' then CHR 0x0D
      else e)"

text \<open>
  The loop of \<open>readString\<close>: it stops after the closing quote or at the end of the text.
  After a backslash the next character is taken whatever it is; at the end of the text
  \<open>advance()\<close> returns the empty string and nothing is appended.
\<close>

function readString_loop :: "char \<Rightarrow> lexer \<Rightarrow> string \<Rightarrow> lexer \<times> string" where
  "readString_loop quote s val =
     (case source s of
        [] \<Rightarrow> (s, val)
      | c # rest \<Rightarrow>
          (if c = quote then (advance s, val)
           else if c = CHR 0x5C then
             (case rest of
                [] \<Rightarrow> readString_loop quote (advance s) val
              | e # rest2 \<Rightarrow> readString_loop quote (advance (advance s)) (val @ [unescape e]))
           else readString_loop quote (advance s) (val @ [c])))"
  by pat_completeness auto
termination
  by (relation "measure (\<lambda>(quote, s, val). length (source s))") (auto simp: advance_def)

definition readString :: "lexer \<Rightarrow> token \<times> lexer" where
  "readString s =
     (let startColumn = column s;
          quote = hd (source s);
          (s1, val) = readString_loop quote (advance s) []
      in (\<lparr>ttype = T_STRING, tvalue = val, tline = line s1, tcolumn = startColumn\<rparr>, s1))"

definition keyword_token :: "string \<Rightarrow> TokenType option" where
  "keyword_token englishKeyword =
     (if englishKeyword = ''if'' then Some T_IF
      else if englishKeyword = ''else'' then Some T_ELSE
      else if englishKeyword = ''while'' then Some T_WHILE
      else if englishKeyword = ''for'' then Some T_FOR
      else if englishKeyword = ''function'' then Some T_FUNCTION
      else if englishKeyword = ''return'' then Some T_RETURN
      else if englishKeyword = ''var'' then Some T_VAR
      else if englishKeyword = ''true'' then Some T_TRUE
      else if englishKeyword = ''false'' then Some T_FALSE
      else if englishKeyword = ''null'' then Some T_NULL
      else None)"

fun getKeywordTokenType :: "(string \<times> string) list \<Rightarrow> string \<Rightarrow> TokenType" where
  "getKeywordTokenType [] val = T_IDENTIFIER"
| "getKeywordTokenType ((englishKeyword, translatedKeyword) # entries) val =
     (if val = translatedKeyword then
        (case keyword_token englishKeyword of
           Some t \<Rightarrow> t
         | None \<Rightarrow> getKeywordTokenType entries val)
      else getKeywordTokenType entries val)"

definition readIdentifier :: "language \<Rightarrow> lexer \<Rightarrow> token \<times> lexer" where
  "readIdentifier lang s =
     (let startColumn = column s;
          (s1, val) = read_while is_identifier_char s []
      in (\<lparr>ttype = getKeywordTokenType (keywords lang) val, tvalue = val,
           tline = line s1, tcolumn = startColumn\<rparr>, s1))"

definition two_char_token :: "string \<Rightarrow> TokenType option" where
  "two_char_token twoChar =
     (if twoChar = ''=='' then Some T_EQUAL
      else if twoChar = ''!='' then Some T_NOT_EQUAL
      else if twoChar = ''<='' then Some T_LESS_EQUAL
      else if twoChar = ''>='' then Some T_GREATER_EQUAL
      else if twoChar = ''&&'' then Some T_AND
      else if twoChar = ''||'' then Some T_OR
      else None)"

definition single_char_token :: "char \<Rightarrow> TokenType option" where
  "single_char_token c =
     (if c = CHR ''='' then Some T_ASSIGN
      else if c = CHR ''<'' then Some T_LESS_THAN
      else if c = CHR ''>'' then Some T_GREATER_THAN
      else if c = CHR ''+'' then Some T_PLUS
      else if c = CHR ''-'' then Some T_MINUS
      else if c = CHR ''*'' then Some T_MULTIPLY
      else if c = CHR ''/'' then Some T_DIVIDE
      else if c = CHR ''%'' then Some T_MODULO
      else if c = CHR ''!'' then Some T_NOT
      else if c = CHR ''('' then Some T_LPAREN
      else if c = CHR '')'' then Some T_RPAREN
      else if c = CHR ''{'' then Some T_LBRACE
      else if c = CHR ''}'' then Some T_RBRACE
      else if c = CHR '';'' then Some T_SEMICOLON
      else if c = CHR '','' then Some T_COMMA
      else if c = CHR 0x0A then Some T_NEWLINE
      else None)"

declare skipWhitespace.simps [simp del] read_while.simps [simp del]
  readString_loop.simps [simp del]

text \<open>
  The loop of \<open>tokenize\<close>. Every round that does not leave the loop consumes at least one
  character, which is why it ends.
\<close>

function tokenize_loop :: "language \<Rightarrow> lexer \<Rightarrow> token list \<Rightarrow> token list \<times> lexer" where
  "tokenize_loop lang s tokens =
     (case source s of
        [] \<Rightarrow> (tokens, s)
      | _ # _ \<Rightarrow>
          (let s1 = skipWhitespace s
           in case source s1 of
                [] \<Rightarrow> (tokens, s1)
              | c # rest \<Rightarrow>
                  (let startColumn = column s1
                   in if is_digit c then
                        (let (t, s2) = readNumber s1 in tokenize_loop lang s2 (tokens @ [t]))
                      else if c = CHR 0x22 \<or> c = CHR 0x27 then
                        (let (t, s2) = readString s1 in tokenize_loop lang s2 (tokens @ [t]))
                      else if is_identifier_start c then
                        (let (t, s2) = readIdentifier lang s1
                         in tokenize_loop lang s2 (tokens @ [t]))
                      else
                        (case (case rest of
                                 [] \<Rightarrow> None
                               | c2 # _ \<Rightarrow>
                                   map_option (\<lambda>ty. (ty, [c, c2])) (two_char_token [c, c2])) of
                           Some (tokenType, twoChar) \<Rightarrow>
                             tokenize_loop lang (advance (advance s1))
                               (tokens @ [\<lparr>ttype = tokenType, tvalue = twoChar,
                                            tline = line s1, tcolumn = startColumn\<rparr>])
                         | None \<Rightarrow>
                             (case single_char_token c of
                                Some tokenType \<Rightarrow>
                                  tokenize_loop lang (advance s1)
                                    (tokens @ [\<lparr>ttype = tokenType, tvalue = [c],
                                                 tline = line s1, tcolumn = startColumn\<rparr>])
                              | None \<Rightarrow>
                                  tokenize_loop lang (advance s1)
                                    (tokens @ [\<lparr>ttype = T_UNKNOWN, tvalue = [c],
                                                 tline = line s1, tcolumn = startColumn\<rparr>]))))))"
  by pat_completeness auto
termination
proof -
  have advance_length: "length (source (advance s)) \<le> length (source s)" for s
    by (simp add: advance_def split: list.splits)
  have advance_shrinks: "length (source (advance s)) < length (source s)"
    if "source s \<noteq> []" for s
    using that by (auto simp: advance_def split: list.splits)
  have skipWhitespace_length: "length (source (skipWhitespace s)) \<le> length (source s)" for s
  proof (induction s rule: skipWhitespace.induct)
    case (1 s)
    show ?case
    proof (cases "source s")
      case Nil
      then show ?thesis by (subst skipWhitespace.simps) simp
    next
      case (Cons c rest)
      show ?thesis
      proof (cases "c = CHR '' '' \<or> c = CHR 0x09 \<or> c = CHR 0x0D")
        case True
        have "skipWhitespace s = skipWhitespace (advance s)"
          using Cons True by (subst skipWhitespace.simps) auto
        with "1.IH"[OF Cons True] advance_length[of s] show ?thesis by simp
      next
        case False
        have "skipWhitespace s = s"
          using Cons False by (subst skipWhitespace.simps) auto
        then show ?thesis by simp
      qed
    qed
  qed
  have read_while_length:
    "length (source (fst (read_while cls s val))) \<le> length (source s)" for cls s val
  proof (induction cls s val rule: read_while.induct)
    case (1 cls s val)
    show ?case
    proof (cases "source s")
      case Nil
      then show ?thesis by (subst read_while.simps) simp
    next
      case (Cons c rest)
      show ?thesis
      proof (cases "cls c")
        case True
        have "read_while cls s val = read_while cls (advance s) (val @ [c])"
          using Cons True by (subst read_while.simps) simp
        with "1.IH"[OF Cons True] advance_length[of s] show ?thesis by simp
      next
        case False
        have "read_while cls s val = (s, val)"
          using Cons False by (subst read_while.simps) simp
        then show ?thesis by simp
      qed
    qed
  qed
  have read_while_shrinks:
    "length (source (fst (read_while cls s val))) < length (source s)"
    if "source s = c # rest" and "cls c" for cls s val c rest
  proof -
    have "read_while cls s val = read_while cls (advance s) (val @ [c])"
      using that by (subst read_while.simps) simp
    then have "length (source (fst (read_while cls s val))) \<le> length (source (advance s))"
      by (simp add: read_while_length)
    also have "\<dots> < length (source s)" using advance_shrinks[of s] that by simp
    finally show ?thesis .
  qed
  have readString_loop_length:
    "length (source (fst (readString_loop quote s val))) \<le> length (source s)" for quote s val
  proof (induction quote s val rule: readString_loop.induct)
    case (1 quote s val)
    show ?case
    proof (cases "source s")
      case Nil
      then show ?thesis by (subst readString_loop.simps) simp
    next
      case (Cons c rest)
      note src = Cons
      show ?thesis
      proof (cases "c = quote")
        case True
        have "readString_loop quote s val = (advance s, val)"
          using src True by (subst readString_loop.simps) simp
        then show ?thesis by (simp add: advance_length)
      next
        case nq: False
        show ?thesis
        proof (cases "c = CHR 0x5C")
          case bs: True
          show ?thesis
          proof (cases rest)
            case Nil
            have "readString_loop quote s val = readString_loop quote (advance s) val"
              using src nq bs Nil by (subst readString_loop.simps) simp
            with "1.IH"(1)[OF src nq bs Nil] advance_length[of s] show ?thesis by simp
          next
            case (Cons e rest2)
            have "readString_loop quote s val
                    = readString_loop quote (advance (advance s)) (val @ [unescape e])"
              using src nq bs Cons by (subst readString_loop.simps) simp
            with "1.IH"(2)[OF src nq bs Cons] advance_length[of s]
              advance_length[of "advance s"]
            show ?thesis by simp
          qed
        next
          case False
          have "readString_loop quote s val = readString_loop quote (advance s) (val @ [c])"
            using src nq False by (subst readString_loop.simps) simp
          with "1.IH"(3)[OF src nq False] advance_length[of s] show ?thesis by simp
        qed
      qed
    qed
  qed
  have skip_advance_shrinks:
    "length (source (advance (skipWhitespace s))) < Suc (length l)"
    "length (source (advance (advance (skipWhitespace s)))) < Suc (length l)"
    if "source (skipWhitespace s) \<noteq> []" and "source s = a # l" for s a l
    using advance_shrinks[OF that(1)] advance_length[of "advance (skipWhitespace s)"]
      skipWhitespace_length[of s] that(2)
    by simp_all
  show ?thesis
  proof (relation "measure (\<lambda>(lang, s, tokens). length (source s))", goal_cases)
    case 1
    show ?case by simp
  next
    case (2 lang s tokens a list s1 c rest startColumn x t s2)
    then have "length (source s2) < length (source s1)"
      using read_while_shrinks[of s1 c rest is_number_char "[]"]
      by (auto simp: readNumber_def is_number_char_def Let_def split: prod.splits)
    then show ?case using skipWhitespace_length[of s] 2 by simp
  next
    case (3 lang s tokens a list s1 c rest startColumn x t s2)
    then have "length (source s2) \<le> length (source (advance s1))"
      using readString_loop_length[of "hd (source s1)" "advance s1" "[]"]
      by (auto simp: readString_def Let_def split: prod.splits)
    moreover have "length (source (advance s1)) < length (source s1)"
      using advance_shrinks[of s1] 3 by simp
    ultimately show ?case using skipWhitespace_length[of s] 3 by simp
  next
    case (4 lang s tokens a list s1 c rest startColumn x t s2)
    then have "length (source s2) < length (source s1)"
      using read_while_shrinks[of s1 c rest is_identifier_char "[]"]
      by (auto simp: readIdentifier_def is_identifier_char_def is_identifier_start_def Let_def
          split: prod.splits)
    then show ?case using skipWhitespace_length[of s] 4 by simp
  next
    case 5
    then show ?case by (simp add: skip_advance_shrinks)
  next
    case 6
    then show ?case by (simp add: skip_advance_shrinks)
  next
    case 7
    then show ?case by (simp add: skip_advance_shrinks)
  qed
qed

declare tokenize_loop.simps [simp del]

definition tokenize :: "language \<Rightarrow> string \<Rightarrow> token list" where
  "tokenize lang src =
     (let (tokens, s) = tokenize_loop lang \<lparr>source = src, line = 1, column = 1\<rparr> []
      in tokens @ [\<lparr>ttype = T_EOF, tvalue = '''', tline = line s, tcolumn = column s\<rparr>])"

section \<open>Parser\<close>

text \<open>
  The parser's state is the token list without its \<open>NEWLINE\<close> tokens, which never
  changes, and the index \<open>current\<close>. A method that consumes tokens returns the new index
  with its result.
\<close>

definition peek :: "token list \<Rightarrow> nat \<Rightarrow> token" where
  \<comment> \<open>\<open>this.tokens[this.current] || this.tokens[this.tokens.length - 1]\<close>\<close>
  "peek ts cur = (if cur < length ts then ts ! cur else last ts)"

definition previous :: "token list \<Rightarrow> nat \<Rightarrow> token" where
  "previous ts cur = ts ! (cur - 1)"

definition isAtEnd :: "token list \<Rightarrow> nat \<Rightarrow> bool" where
  "isAtEnd ts cur = (ttype (peek ts cur) = T_EOF)"

definition advance_token :: "token list \<Rightarrow> nat \<Rightarrow> nat" where
  \<comment> \<open>the index after \<open>advance()\<close>; the token it returns is \<open>previous\<close> at that index\<close>
  "advance_token ts cur = (if \<not> isAtEnd ts cur then cur + 1 else cur)"

definition check :: "token list \<Rightarrow> nat \<Rightarrow> TokenType \<Rightarrow> bool" where
  "check ts cur ty = (if isAtEnd ts cur then False else ttype (peek ts cur) = ty)"

fun match :: "token list \<Rightarrow> nat \<Rightarrow> TokenType list \<Rightarrow> nat option" where
  \<comment> \<open>\<open>Some\<close> of the new index when one of the types matched, \<open>None\<close> for \<open>false\<close>\<close>
  "match ts cur [] = None"
| "match ts cur (ty # types) =
     (if check ts cur ty then Some (advance_token ts cur) else match ts cur types)"

text \<open>
  The outcome of a parsing method: a result with the new index, or the exception it
  throws. The methods call each other recursively; the model bounds the depth of these
  calls by a counter, and \<open>NoFuel\<close> says that the bound was hit. It is not an outcome of
  the source.
\<close>

datatype 'a presult = Parsed 'a nat | Failed error | NoFuel

fun pbind :: "'a presult \<Rightarrow> ('a \<Rightarrow> nat \<Rightarrow> 'b presult) \<Rightarrow> 'b presult" where
  "pbind (Parsed x cur) k = k x cur"
| "pbind (Failed err) k = Failed err"
| "pbind NoFuel k = NoFuel"

definition consume :: "token list \<Rightarrow> nat \<Rightarrow> TokenType \<Rightarrow> string \<Rightarrow> token presult" where
  "consume ts cur ty message =
     (if check ts cur ty then
        (let cur' = advance_token ts cur in Parsed (previous ts cur') cur')
      else Failed (ParseError message (peek ts cur)))"

definition is_identifier :: "node \<Rightarrow> bool" where
  "is_identifier n = (case n of Identifier _ \<Rightarrow> True | _ \<Rightarrow> False)"

definition identifier_name :: "node \<Rightarrow> string" where
  "identifier_name n = (case n of Identifier name \<Rightarrow> name | _ \<Rightarrow> [])"

text \<open>
  The methods of the parser, one function each, and one function for each of their
  loops: \<open>parameters_loop\<close> and \<open>arguments_loop\<close> are the two \<open>do \<dots> while (match(COMMA))\<close>,
  \<open>block_loop\<close> is \<open>while (!check(RBRACE) && !isAtEnd())\<close> of a function body and of a
  block, and \<open>or_loop\<close> to \<open>factor_loop\<close> and \<open>call_loop\<close> are the \<open>while\<close> loops of the
  methods of these names. The methods \<open>declaration\<close>, \<open>or\<close>, \<open>and\<close> and \<open>term\<close> are
  \<open>parse_declaration\<close>, \<open>parse_or\<close>, \<open>parse_and\<close> and \<open>parse_term\<close> here.

  The methods are mutually recursive through \<open>expression\<close>, \<open>statement\<close> and
  \<open>declaration\<close>. A function below takes as arguments the methods that it calls and that
  are defined after it: \<open>ex\<close> is \<open>this.expression()\<close>, \<open>st\<close> is \<open>this.statement()\<close> and \<open>de\<close>
  is \<open>this.declaration()\<close>, each from an index. The knot is tied in \<open>expression\<close> and
  \<open>parse_declaration\<close>, by recursion on the counter \<open>k\<close>, which every loop and every
  method that calls itself also counts down.
\<close>

type_synonym 'a pmethod = "nat \<Rightarrow> 'a presult"

definition primary :: "node pmethod \<Rightarrow> token list \<Rightarrow> nat \<Rightarrow> node presult" where
  "primary ex ts cur =
     (case match ts cur [T_TRUE] of
        Some c1 \<Rightarrow> Parsed (Literal (JBool True) LBoolean) c1
      | None \<Rightarrow>
     (case match ts cur [T_FALSE] of
        Some c1 \<Rightarrow> Parsed (Literal (JBool False) LBoolean) c1
      | None \<Rightarrow>
     (case match ts cur [T_NULL] of
        Some c1 \<Rightarrow> Parsed (Literal JNull LNull) c1
      | None \<Rightarrow>
     (case match ts cur [T_NUMBER] of
        Some c1 \<Rightarrow> Parsed (Literal (JNum (parseFloat (tvalue (previous ts c1)))) LNumber) c1
      | None \<Rightarrow>
     (case match ts cur [T_STRING] of
        Some c1 \<Rightarrow> Parsed (Literal (JStr (tvalue (previous ts c1))) LString) c1
      | None \<Rightarrow>
     (case match ts cur [T_IDENTIFIER] of
        Some c1 \<Rightarrow> Parsed (Identifier (tvalue (previous ts c1))) c1
      | None \<Rightarrow>
     (case match ts cur [T_LPAREN] of
        Some c1 \<Rightarrow>
          pbind (ex c1) (\<lambda>expr c2.
          pbind (consume ts c2 T_RPAREN ''Expected ')' after expression'') (\<lambda>_ c3.
          Parsed expr c3))
      | None \<Rightarrow> Failed (ParseError ''Expected expression'' (peek ts cur)))))))))"

fun arguments_loop :: "node pmethod \<Rightarrow> nat \<Rightarrow> token list \<Rightarrow> nat \<Rightarrow> node list \<Rightarrow> node list presult" where
  "arguments_loop ex 0 ts cur args = NoFuel"
| "arguments_loop ex (Suc k) ts cur args =
     pbind (ex cur) (\<lambda>arg c1.
     (case match ts c1 [T_COMMA] of
        Some c2 \<Rightarrow> arguments_loop ex k ts c2 (args @ [arg])
      | None \<Rightarrow> Parsed (args @ [arg]) c1))"

definition finishCall :: "node pmethod \<Rightarrow> nat \<Rightarrow> token list \<Rightarrow> nat \<Rightarrow> node \<Rightarrow> node presult" where
  "finishCall ex k ts cur callee =
     pbind (if \<not> check ts cur T_RPAREN then arguments_loop ex k ts cur [] else Parsed [] cur)
       (\<lambda>args c1.
     pbind (consume ts c1 T_RPAREN ''Expected ')' after arguments'') (\<lambda>_ c2.
     Parsed (CallExpression callee args) c2))"

fun call_loop :: "node pmethod \<Rightarrow> nat \<Rightarrow> token list \<Rightarrow> nat \<Rightarrow> node \<Rightarrow> node presult" where
  "call_loop ex 0 ts cur expr = NoFuel"
| "call_loop ex (Suc k) ts cur expr =
     (case match ts cur [T_LPAREN] of
        Some c1 \<Rightarrow> pbind (finishCall ex k ts c1 expr) (\<lambda>e c2. call_loop ex k ts c2 e)
      | None \<Rightarrow> Parsed expr cur)"

definition call :: "node pmethod \<Rightarrow> nat \<Rightarrow> token list \<Rightarrow> nat \<Rightarrow> node presult" where
  "call ex k ts cur = pbind (primary ex ts cur) (\<lambda>expr c1. call_loop ex k ts c1 expr)"

fun unary :: "node pmethod \<Rightarrow> nat \<Rightarrow> token list \<Rightarrow> nat \<Rightarrow> node presult" where
  "unary ex 0 ts cur = NoFuel"
| "unary ex (Suc k) ts cur =
     (case match ts cur [T_NOT, T_MINUS] of
        Some c1 \<Rightarrow>
          pbind (unary ex k ts c1) (\<lambda>right c2.
          Parsed (UnaryExpression (tvalue (previous ts c1)) right) c2)
      | None \<Rightarrow> call ex k ts cur)"

fun factor_loop :: "node pmethod \<Rightarrow> nat \<Rightarrow> token list \<Rightarrow> nat \<Rightarrow> node \<Rightarrow> node presult" where
  "factor_loop ex 0 ts cur expr = NoFuel"
| "factor_loop ex (Suc k) ts cur expr =
     (case match ts cur [T_DIVIDE, T_MULTIPLY, T_MODULO] of
        Some c1 \<Rightarrow>
          pbind (unary ex k ts c1) (\<lambda>right c2.
          factor_loop ex k ts c2 (BinaryExpression expr (tvalue (previous ts c1)) right))
      | None \<Rightarrow> Parsed expr cur)"

definition factor :: "node pmethod \<Rightarrow> nat \<Rightarrow> token list \<Rightarrow> nat \<Rightarrow> node presult" where
  "factor ex k ts cur = pbind (unary ex k ts cur) (\<lambda>expr c1. factor_loop ex k ts c1 expr)"

fun term_loop :: "node pmethod \<Rightarrow> nat \<Rightarrow> token list \<Rightarrow> nat \<Rightarrow> node \<Rightarrow> node presult" where
  "term_loop ex 0 ts cur expr = NoFuel"
| "term_loop ex (Suc k) ts cur expr =
     (case match ts cur [T_MINUS, T_PLUS] of
        Some c1 \<Rightarrow>
          pbind (factor ex k ts c1) (\<lambda>right c2.
          term_loop ex k ts c2 (BinaryExpression expr (tvalue (previous ts c1)) right))
      | None \<Rightarrow> Parsed expr cur)"

definition parse_term :: "node pmethod \<Rightarrow> nat \<Rightarrow> token list \<Rightarrow> nat \<Rightarrow> node presult" where
  "parse_term ex k ts cur = pbind (factor ex k ts cur) (\<lambda>expr c1. term_loop ex k ts c1 expr)"

fun comparison_loop :: "node pmethod \<Rightarrow> nat \<Rightarrow> token list \<Rightarrow> nat \<Rightarrow> node \<Rightarrow> node presult" where
  "comparison_loop ex 0 ts cur expr = NoFuel"
| "comparison_loop ex (Suc k) ts cur expr =
     (case match ts cur [T_GREATER_THAN, T_GREATER_EQUAL, T_LESS_THAN, T_LESS_EQUAL] of
        Some c1 \<Rightarrow>
          pbind (parse_term ex k ts c1) (\<lambda>right c2.
          comparison_loop ex k ts c2 (BinaryExpression expr (tvalue (previous ts c1)) right))
      | None \<Rightarrow> Parsed expr cur)"

definition comparison :: "node pmethod \<Rightarrow> nat \<Rightarrow> token list \<Rightarrow> nat \<Rightarrow> node presult" where
  "comparison ex k ts cur =
     pbind (parse_term ex k ts cur) (\<lambda>expr c1. comparison_loop ex k ts c1 expr)"

fun equality_loop :: "node pmethod \<Rightarrow> nat \<Rightarrow> token list \<Rightarrow> nat \<Rightarrow> node \<Rightarrow> node presult" where
  "equality_loop ex 0 ts cur expr = NoFuel"
| "equality_loop ex (Suc k) ts cur expr =
     (case match ts cur [T_NOT_EQUAL, T_EQUAL] of
        Some c1 \<Rightarrow>
          pbind (comparison ex k ts c1) (\<lambda>right c2.
          equality_loop ex k ts c2 (BinaryExpression expr (tvalue (previous ts c1)) right))
      | None \<Rightarrow> Parsed expr cur)"

definition equality :: "node pmethod \<Rightarrow> nat \<Rightarrow> token list \<Rightarrow> nat \<Rightarrow> node presult" where
  "equality ex k ts cur =
     pbind (comparison ex k ts cur) (\<lambda>expr c1. equality_loop ex k ts c1 expr)"

fun and_loop :: "node pmethod \<Rightarrow> nat \<Rightarrow> token list \<Rightarrow> nat \<Rightarrow> node \<Rightarrow> node presult" where
  "and_loop ex 0 ts cur expr = NoFuel"
| "and_loop ex (Suc k) ts cur expr =
     (case match ts cur [T_AND] of
        Some c1 \<Rightarrow>
          pbind (equality ex k ts c1) (\<lambda>right c2.
          and_loop ex k ts c2 (BinaryExpression expr (tvalue (previous ts c1)) right))
      | None \<Rightarrow> Parsed expr cur)"

definition parse_and :: "node pmethod \<Rightarrow> nat \<Rightarrow> token list \<Rightarrow> nat \<Rightarrow> node presult" where
  "parse_and ex k ts cur = pbind (equality ex k ts cur) (\<lambda>expr c1. and_loop ex k ts c1 expr)"

fun or_loop :: "node pmethod \<Rightarrow> nat \<Rightarrow> token list \<Rightarrow> nat \<Rightarrow> node \<Rightarrow> node presult" where
  "or_loop ex 0 ts cur expr = NoFuel"
| "or_loop ex (Suc k) ts cur expr =
     (case match ts cur [T_OR] of
        Some c1 \<Rightarrow>
          pbind (parse_and ex k ts c1) (\<lambda>right c2.
          or_loop ex k ts c2 (BinaryExpression expr (tvalue (previous ts c1)) right))
      | None \<Rightarrow> Parsed expr cur)"

definition parse_or :: "node pmethod \<Rightarrow> nat \<Rightarrow> token list \<Rightarrow> nat \<Rightarrow> node presult" where
  "parse_or ex k ts cur = pbind (parse_and ex k ts cur) (\<lambda>expr c1. or_loop ex k ts c1 expr)"

fun assignment :: "node pmethod \<Rightarrow> nat \<Rightarrow> token list \<Rightarrow> nat \<Rightarrow> node presult" where
  "assignment ex 0 ts cur = NoFuel"
| "assignment ex (Suc k) ts cur =
     pbind (parse_or ex k ts cur) (\<lambda>expr c1.
     (case match ts c1 [T_ASSIGN] of
        Some c2 \<Rightarrow>
          pbind (assignment ex k ts c2) (\<lambda>val c3.
          if is_identifier expr then Parsed (AssignmentExpression (identifier_name expr) val) c3
          else Failed (ParseError ''Invalid assignment target'' (previous ts c3)))
      | None \<Rightarrow> Parsed expr c1))"

fun expression :: "nat \<Rightarrow> token list \<Rightarrow> nat \<Rightarrow> node presult" where
  "expression 0 ts cur = NoFuel"
| "expression (Suc k) ts cur = assignment (expression k ts) k ts cur"

definition expressionStatement :: "node pmethod \<Rightarrow> token list \<Rightarrow> nat \<Rightarrow> node presult" where
  "expressionStatement ex ts cur =
     pbind (ex cur) (\<lambda>expr c1.
     pbind (consume ts c1 T_SEMICOLON ''Expected ';' after expression'') (\<lambda>_ c2.
     Parsed (ExpressionStatement expr) c2))"

definition varDeclaration :: "node pmethod \<Rightarrow> token list \<Rightarrow> nat \<Rightarrow> node presult" where
  "varDeclaration ex ts cur =
     pbind (consume ts cur T_IDENTIFIER ''Expected variable name'') (\<lambda>name c1.
     pbind (case match ts c1 [T_ASSIGN] of
              Some c2 \<Rightarrow> pbind (ex c2) (\<lambda>e c3. Parsed (Some e) c3)
            | None \<Rightarrow> Parsed None c1) (\<lambda>initializer c4.
     pbind (consume ts c4 T_SEMICOLON ''Expected ';' after variable declaration'') (\<lambda>_ c5.
     Parsed (VarDeclaration (tvalue name) initializer) c5)))"

definition returnStatement :: "node pmethod \<Rightarrow> token list \<Rightarrow> nat \<Rightarrow> node presult" where
  "returnStatement ex ts cur =
     pbind (if \<not> check ts cur T_SEMICOLON
            then pbind (ex cur) (\<lambda>e c1. Parsed (Some e) c1)
            else Parsed None cur) (\<lambda>val c2.
     pbind (consume ts c2 T_SEMICOLON ''Expected ';' after return value'') (\<lambda>_ c3.
     Parsed (ReturnStatement val) c3))"

definition ifStatement :: "node pmethod \<Rightarrow> node pmethod \<Rightarrow> token list \<Rightarrow> nat \<Rightarrow> node presult" where
  "ifStatement ex st ts cur =
     pbind (consume ts cur T_LPAREN (''Expected '(' after 'if'' @ [CHR 0x27])) (\<lambda>_ c1.
     pbind (ex c1) (\<lambda>condition c2.
     pbind (consume ts c2 T_RPAREN ''Expected ')' after if condition'') (\<lambda>_ c3.
     pbind (st c3) (\<lambda>thenStatement c4.
     (case match ts c4 [T_ELSE] of
        Some c5 \<Rightarrow>
          pbind (st c5) (\<lambda>elseStatement c6.
          Parsed (IfStatement condition thenStatement (Some elseStatement)) c6)
      | None \<Rightarrow> Parsed (IfStatement condition thenStatement None) c4)))))"

definition whileStatement :: "node pmethod \<Rightarrow> node pmethod \<Rightarrow> token list \<Rightarrow> nat \<Rightarrow> node presult" where
  "whileStatement ex st ts cur =
     pbind (consume ts cur T_LPAREN (''Expected '(' after 'while'' @ [CHR 0x27])) (\<lambda>_ c1.
     pbind (ex c1) (\<lambda>condition c2.
     pbind (consume ts c2 T_RPAREN ''Expected ')' after while condition'') (\<lambda>_ c3.
     pbind (st c3) (\<lambda>body c4.
     Parsed (WhileStatement condition body) c4))))"

definition forStatement :: "node pmethod \<Rightarrow> node pmethod \<Rightarrow> token list \<Rightarrow> nat \<Rightarrow> node presult" where
  "forStatement ex st ts cur =
     pbind (consume ts cur T_LPAREN (''Expected '(' after 'for'' @ [CHR 0x27])) (\<lambda>_ c1.
     pbind (case match ts c1 [T_SEMICOLON] of
              Some c2 \<Rightarrow> Parsed None c2
            | None \<Rightarrow>
                (case match ts c1 [T_VAR] of
                   Some c2 \<Rightarrow> pbind (varDeclaration ex ts c2) (\<lambda>d c3. Parsed (Some d) c3)
                 | None \<Rightarrow> pbind (expressionStatement ex ts c1) (\<lambda>d c3. Parsed (Some d) c3)))
       (\<lambda>initializer c4.
     pbind (if \<not> check ts c4 T_SEMICOLON
            then pbind (ex c4) (\<lambda>e c5. Parsed (Some e) c5)
            else Parsed None c4) (\<lambda>condition c6.
     pbind (consume ts c6 T_SEMICOLON ''Expected ';' after for loop condition'') (\<lambda>_ c7.
     pbind (if \<not> check ts c7 T_RPAREN
            then pbind (ex c7) (\<lambda>e c8. Parsed (Some e) c8)
            else Parsed None c7) (\<lambda>increment c9.
     pbind (consume ts c9 T_RPAREN ''Expected ')' after for clauses'') (\<lambda>_ c10.
     pbind (st c10) (\<lambda>body c11.
     Parsed (ForStatement initializer condition increment body) c11)))))))"

fun block_loop :: "node pmethod \<Rightarrow> nat \<Rightarrow> token list \<Rightarrow> nat \<Rightarrow> node list \<Rightarrow> node list presult" where
  "block_loop de 0 ts cur statements = NoFuel"
| "block_loop de (Suc k) ts cur statements =
     (if \<not> check ts cur T_RBRACE \<and> \<not> isAtEnd ts cur then
        pbind (de cur) (\<lambda>stmt c1. block_loop de k ts c1 (statements @ [stmt]))
      else Parsed statements cur)"

definition blockStatement :: "node pmethod \<Rightarrow> nat \<Rightarrow> token list \<Rightarrow> nat \<Rightarrow> node presult" where
  "blockStatement de k ts cur =
     pbind (block_loop de k ts cur []) (\<lambda>statements c1.
     pbind (consume ts c1 T_RBRACE ''Expected '}' after block'') (\<lambda>_ c2.
     Parsed (BlockStatement statements) c2))"

fun statement :: "node pmethod \<Rightarrow> node pmethod \<Rightarrow> nat \<Rightarrow> token list \<Rightarrow> nat \<Rightarrow> node presult" where
  "statement ex de 0 ts cur = NoFuel"
| "statement ex de (Suc k) ts cur =
     (case match ts cur [T_IF] of
        Some c1 \<Rightarrow> ifStatement ex (statement ex de k ts) ts c1
      | None \<Rightarrow>
     (case match ts cur [T_WHILE] of
        Some c1 \<Rightarrow> whileStatement ex (statement ex de k ts) ts c1
      | None \<Rightarrow>
     (case match ts cur [T_FOR] of
        Some c1 \<Rightarrow> forStatement ex (statement ex de k ts) ts c1
      | None \<Rightarrow>
     (case match ts cur [T_RETURN] of
        Some c1 \<Rightarrow> returnStatement ex ts c1
      | None \<Rightarrow>
     (case match ts cur [T_LBRACE] of
        Some c1 \<Rightarrow> blockStatement de k ts c1
      | None \<Rightarrow> expressionStatement ex ts cur)))))"

fun parameters_loop :: "nat \<Rightarrow> token list \<Rightarrow> nat \<Rightarrow> string list \<Rightarrow> string list presult" where
  "parameters_loop 0 ts cur parameters = NoFuel"
| "parameters_loop (Suc k) ts cur parameters =
     pbind (consume ts cur T_IDENTIFIER ''Expected parameter name'') (\<lambda>p c1.
     (case match ts c1 [T_COMMA] of
        Some c2 \<Rightarrow> parameters_loop k ts c2 (parameters @ [tvalue p])
      | None \<Rightarrow> Parsed (parameters @ [tvalue p]) c1))"

definition functionDeclaration :: "node pmethod \<Rightarrow> nat \<Rightarrow> token list \<Rightarrow> nat \<Rightarrow> node presult" where
  "functionDeclaration de k ts cur =
     pbind (consume ts cur T_IDENTIFIER ''Expected function name'') (\<lambda>name c1.
     pbind (consume ts c1 T_LPAREN ''Expected '(' after function name'') (\<lambda>_ c2.
     pbind (if \<not> check ts c2 T_RPAREN then parameters_loop k ts c2 [] else Parsed [] c2)
       (\<lambda>parameters c3.
     pbind (consume ts c3 T_RPAREN ''Expected ')' after parameters'') (\<lambda>_ c4.
     pbind (consume ts c4 T_LBRACE ''Expected '{' before function body'') (\<lambda>_ c5.
     pbind (block_loop de k ts c5 []) (\<lambda>body c6.
     pbind (consume ts c6 T_RBRACE ''Expected '}' after function body'') (\<lambda>_ c7.
     Parsed (FunctionDeclaration (tvalue name) parameters body) c7)))))))"

fun parse_declaration :: "nat \<Rightarrow> token list \<Rightarrow> nat \<Rightarrow> node presult" where
  "parse_declaration 0 ts cur = NoFuel"
| "parse_declaration (Suc k) ts cur =
     (case match ts cur [T_VAR] of
        Some c1 \<Rightarrow> varDeclaration (expression k ts) ts c1
      | None \<Rightarrow>
          (case match ts cur [T_FUNCTION] of
             Some c1 \<Rightarrow> functionDeclaration (parse_declaration k ts) k ts c1
           | None \<Rightarrow> statement (expression k ts) (parse_declaration k ts) k ts cur))"

text \<open>
  The loop of \<open>parse\<close>. On a \<open>ParseError\<close> the source calls \<open>synchronize\<close> and throws the
  same error again, so the tokens skipped there have no effect on the outcome.
\<close>

fun parse_loop :: "nat \<Rightarrow> token list \<Rightarrow> nat \<Rightarrow> node list \<Rightarrow> node list presult" where
  "parse_loop 0 ts cur statements = NoFuel"
| "parse_loop (Suc k) ts cur statements =
     (if \<not> isAtEnd ts cur then
        pbind (parse_declaration k ts cur) (\<lambda>stmt c1. parse_loop k ts c1 (statements @ [stmt]))
      else Parsed statements cur)"

text \<open>
  \<open>new Parser(tokens).parse()\<close>. The constructor drops the \<open>NEWLINE\<close> tokens. Without any
  token left \<open>peek()\<close> is \<open>undefined\<close> and its \<open>type\<close> cannot be read. The counter starts
  above twice the number of tokens; \<open>None\<close> says that it ran out.
\<close>

definition parse :: "token list \<Rightarrow> (error + node) option" where
  "parse tokens =
     (let ts = filter (\<lambda>t. ttype t \<noteq> T_NEWLINE) tokens
      in if ts = [] then Some (Inl TypeError)
         else
           (case parse_loop (2 * length ts + 8) ts 0 [] of
              Parsed statements _ \<Rightarrow> Some (Inr (Program statements))
            | Failed err \<Rightarrow> Some (Inl err)
            | NoFuel \<Rightarrow> None))"
section \<open>BytecodeGenerator\<close>

text \<open>
  The two \<open>Map\<close>s of the generator are association lists with one entry per key:
  \<open>set\<close> is \<open>AList.update\<close>, \<open>get\<close> is \<open>map_of\<close> and \<open>size\<close> is the length.
\<close>

record gen =
  instructions :: "instr list"
  constants :: "jsvalue list"
  variables :: "(string \<times> nat) list"
  "functions" :: "(string \<times> nat \<times> nat) list"

definition new_gen :: gen where
  "new_gen = \<lparr>instructions = [], constants = [], variables = [], functions = []\<rparr>"

definition emit :: "instr \<Rightarrow> gen \<Rightarrow> gen" where
  "emit i g = g\<lparr>instructions := instructions g @ [i]\<rparr>"

fun indexOf :: "jsvalue list \<Rightarrow> jsvalue \<Rightarrow> nat option" where
  "indexOf [] v = None"
| "indexOf (c # cs) v =
     (if strict_eq c v then Some 0 else map_option Suc (indexOf cs v))"

definition addConstant :: "jsvalue \<Rightarrow> gen \<Rightarrow> nat \<times> gen" where
  "addConstant v g =
     (case indexOf (constants g) v of
        Some i \<Rightarrow> (i, g)
      | None \<Rightarrow> (length (constants g), g\<lparr>constants := constants g @ [v]\<rparr>))"

definition emit_const :: "jsvalue \<Rightarrow> gen \<Rightarrow> gen" where
  \<comment> \<open>\<open>this.emit(OpCode.LOAD_CONST, this.addConstant(v))\<close>\<close>
  "emit_const v g = (let (i, g') = addConstant v g in emit (LOAD_CONST i) g')"

fun set_operand :: "nat \<Rightarrow> instr \<Rightarrow> instr" where
  "set_operand n (LOAD_CONST _) = LOAD_CONST n"
| "set_operand n (LOAD_VAR _) = LOAD_VAR n"
| "set_operand n (STORE_VAR _) = STORE_VAR n"
| "set_operand n (JUMP _) = JUMP n"
| "set_operand n (JUMP_IF_FALSE _) = JUMP_IF_FALSE n"
| "set_operand n (JUMP_IF_TRUE _) = JUMP_IF_TRUE n"
| "set_operand n (CALL _) = CALL n"
| "set_operand n (PRINT _) = PRINT n"
| "set_operand n i = i"

definition patch :: "nat \<Rightarrow> gen \<Rightarrow> gen" where
  \<comment> \<open>\<open>this.instructions[j].operand = this.instructions.length\<close>\<close>
  "patch j g =
     g\<lparr>instructions :=
         (instructions g)[j := set_operand (length (instructions g)) (instructions g ! j)]\<rparr>"

definition declare_var :: "string \<Rightarrow> gen \<Rightarrow> gen" where
  \<comment> \<open>a fresh index \<open>variables.size\<close>, bound to the name, and the \<open>STORE_VAR\<close> to it\<close>
  "declare_var name g =
     (let varIndex = length (variables g)
      in emit (STORE_VAR varIndex) (g\<lparr>variables := AList.update name varIndex (variables g)\<rparr>))"

definition emit_binary :: "string \<Rightarrow> gen \<Rightarrow> gen" where
  "emit_binary operator g =
     (if operator = ''+'' then emit ADD g
      else if operator = ''-'' then emit SUBTRACT g
      else if operator = ''*'' then emit MULTIPLY g
      else if operator = ''/'' then emit DIVIDE g
      else if operator = ''%'' then emit MODULO g
      else if operator = ''=='' then emit EQUAL g
      else if operator = ''!='' then emit NOT_EQUAL g
      else if operator = ''<'' then emit LESS_THAN g
      else if operator = ''>'' then emit GREATER_THAN g
      else if operator = ''<='' then emit LESS_EQUAL g
      else if operator = ''>='' then emit GREATER_EQUAL g
      else if operator = ''&&'' then emit AND g
      else if operator = ''||'' then emit OR g
      else g)"

definition emit_unary :: "string \<Rightarrow> gen \<Rightarrow> gen" where
  "emit_unary operator g =
     (if operator = ''-'' then emit NEGATE g
      else if operator = ''!'' then emit NOT g
      else g)"

definition visitIdentifier :: "string \<Rightarrow> gen \<Rightarrow> error + gen" where
  "visitIdentifier name g =
     (case map_of (variables g) name of
        Some varIndex \<Rightarrow> Inr (emit (LOAD_VAR varIndex) g)
      | None \<Rightarrow>
          (case map_of (functions g) name of
             Some (address, arity) \<Rightarrow> Inr (emit_const (JNum (Fin (of_nat address))) g)
           | None \<Rightarrow> Inl (UndefinedVariable name)))"

definition is_expression_statement :: "node \<Rightarrow> bool" where
  "is_expression_statement n = (case n of ExpressionStatement _ \<Rightarrow> True | _ \<Rightarrow> False)"

text \<open>
  \<open>visit n g\<close> is \<open>n.accept(this)\<close> on the generator in state \<open>g\<close>: the node's class picks
  the method. A \<open>BlockStatement\<close> hands its statements to \<open>visitProgram\<close>. \<open>visit_all\<close> is
  the loop \<open>for (const s of nodes) s.accept(this)\<close>.
\<close>

fun visit :: "node \<Rightarrow> gen \<Rightarrow> error + gen"
  and visit_all :: "node list \<Rightarrow> gen \<Rightarrow> error + gen" where
  "visit (Program statements) g = visit_all statements g"
| "visit (BlockStatement statements) g = visit_all statements g"
| "visit (VarDeclaration identifier initializer) g =
     (case (case initializer of
              Some e \<Rightarrow> visit e g
            | None \<Rightarrow> Inr (emit_const JNull g)) of
        Inl err \<Rightarrow> Inl err
      | Inr g1 \<Rightarrow> Inr (declare_var identifier g1))"
| "visit (FunctionDeclaration name parameters body) g =
     (let functionAddress = length (instructions g);
          g1 = g\<lparr>functions :=
                   AList.update name (functionAddress, length parameters) (functions g)\<rparr>;
          g2 = foldl (\<lambda>h p. declare_var p h) g1 (rev parameters)
      in case visit_all body g2 of
           Inl err \<Rightarrow> Inl err
         | Inr g3 \<Rightarrow> Inr (emit RETURN (emit_const JNull g3)))"
| "visit (IfStatement condition thenStatement elseStatement) g =
     (case visit condition g of
        Inl err \<Rightarrow> Inl err
      | Inr g1 \<Rightarrow>
          (let jumpIfFalse = length (instructions g1);
               g2 = emit (JUMP_IF_FALSE 0) g1
           in case visit thenStatement g2 of
                Inl err \<Rightarrow> Inl err
              | Inr g3 \<Rightarrow>
                  (case elseStatement of
                     Some els \<Rightarrow>
                       (let jump = length (instructions g3);
                            g4 = emit (JUMP 0) g3;
                            g5 = patch jumpIfFalse g4
                        in case visit els g5 of
                             Inl err \<Rightarrow> Inl err
                           | Inr g6 \<Rightarrow> Inr (patch jump g6))
                   | None \<Rightarrow> Inr (patch jumpIfFalse g3))))"
| "visit (WhileStatement condition body) g =
     (let loopStart = length (instructions g)
      in case visit condition g of
           Inl err \<Rightarrow> Inl err
         | Inr g1 \<Rightarrow>
             (let jumpIfFalse = length (instructions g1);
                  g2 = emit (JUMP_IF_FALSE 0) g1
              in case visit body g2 of
                   Inl err \<Rightarrow> Inl err
                 | Inr g3 \<Rightarrow> Inr (patch jumpIfFalse (emit (JUMP loopStart) g3))))"
| "visit (ForStatement initializer condition increment body) g =
     (case (case initializer of
              Some i \<Rightarrow>
                (case visit i g of
                   Inl err \<Rightarrow> Inl err
                 | Inr h \<Rightarrow> Inr (if is_expression_statement i then emit POP h else h))
            | None \<Rightarrow> Inr g) of
        Inl err \<Rightarrow> Inl err
      | Inr g1 \<Rightarrow>
          (let loopStart = length (instructions g1)
           in case (case condition of
                      Some c \<Rightarrow> visit c g1
                    | None \<Rightarrow> Inr (emit_const (JBool True) g1)) of
                Inl err \<Rightarrow> Inl err
              | Inr g2 \<Rightarrow>
                  (let jumpIfFalse = length (instructions g2);
                       g3 = emit (JUMP_IF_FALSE 0) g2
                   in case visit body g3 of
                        Inl err \<Rightarrow> Inl err
                      | Inr g4 \<Rightarrow>
                          (case (case increment of
                                   Some inc \<Rightarrow>
                                     (case visit inc g4 of
                                        Inl err \<Rightarrow> Inl err
                                      | Inr h \<Rightarrow> Inr (emit POP h))
                                 | None \<Rightarrow> Inr g4) of
                             Inl err \<Rightarrow> Inl err
                           | Inr g5 \<Rightarrow>
                               Inr (patch jumpIfFalse (emit (JUMP loopStart) g5))))))"
| "visit (ReturnStatement val) g =
     (case (case val of
              Some e \<Rightarrow> visit e g
            | None \<Rightarrow> Inr (emit_const JNull g)) of
        Inl err \<Rightarrow> Inl err
      | Inr g1 \<Rightarrow> Inr (emit RETURN g1))"
| "visit (ExpressionStatement expr) g =
     (case visit expr g of
        Inl err \<Rightarrow> Inl err
      | Inr g1 \<Rightarrow> Inr (emit POP g1))"
| "visit (BinaryExpression left operator right) g =
     (case visit left g of
        Inl err \<Rightarrow> Inl err
      | Inr g1 \<Rightarrow>
          (case visit right g1 of
             Inl err \<Rightarrow> Inl err
           | Inr g2 \<Rightarrow> Inr (emit_binary operator g2)))"
| "visit (UnaryExpression operator operand) g =
     (case visit operand g of
        Inl err \<Rightarrow> Inl err
      | Inr g1 \<Rightarrow> Inr (emit_unary operator g1))"
| "visit (CallExpression callee args) g =
     (if callee = Identifier ''print'' \<or> callee = Identifier ''achchidu'' then
        (case visit_all args g of
           Inl err \<Rightarrow> Inl err
         | Inr g1 \<Rightarrow> Inr (emit (PRINT (length args)) g1))
      else if callee = Identifier ''input'' \<or> callee = Identifier ''ulle'' then
        Inr (emit INPUT g)
      else
        (case visit_all args g of
           Inl err \<Rightarrow> Inl err
         | Inr g1 \<Rightarrow>
             (case visit callee g1 of
                Inl err \<Rightarrow> Inl err
              | Inr g2 \<Rightarrow> Inr (emit (CALL (length args)) g2))))"
| "visit (Identifier name) g = visitIdentifier name g"
| "visit (Literal val type) g = Inr (emit_const val g)"
| "visit (AssignmentExpression identifier val) g =
     (case visit val g of
        Inl err \<Rightarrow> Inl err
      | Inr g1 \<Rightarrow>
          (case map_of (variables g1) identifier of
             Some varIndex \<Rightarrow> Inr (emit (STORE_VAR varIndex) g1)
           | None \<Rightarrow> Inr (declare_var identifier g1)))"
| "visit_all [] g = Inr g"
| "visit_all (stmt # rest) g =
     (case visit stmt g of
        Inl err \<Rightarrow> Inl err
      | Inr g1 \<Rightarrow> visit_all rest g1)"

definition generate :: "node \<Rightarrow> error + bytecode" where
  "generate program =
     (case visit program new_gen of
        Inl err \<Rightarrow> Inl err
      | Inr g \<Rightarrow> Inr (instructions (emit HALT g), constants g))"
subsection \<open>Jump targets\<close>

fun jump_target :: "instr \<Rightarrow> nat option" where
  "jump_target (JUMP t) = Some t"
| "jump_target (JUMP_IF_FALSE t) = Some t"
| "jump_target (JUMP_IF_TRUE t) = Some t"
| "jump_target _ = None"

definition targets_le :: "nat \<Rightarrow> instr list \<Rightarrow> bool" where
  "targets_le n ins = list_all (\<lambda>i. case jump_target i of None \<Rightarrow> True | Some t \<Rightarrow> t \<le> n) ins"

definition valid_targets :: "instr list \<Rightarrow> bool" where
  "valid_targets ins = list_all (\<lambda>i. case jump_target i of None \<Rightarrow> True | Some t \<Rightarrow> t < length ins) ins"

definition gen_inv :: "gen \<Rightarrow> bool" where
  "gen_inv g = targets_le (length (instructions g)) (instructions g)"

definition gen_step :: "gen \<Rightarrow> gen \<Rightarrow> bool" where
  "gen_step g g' = (length (instructions g) \<le> length (instructions g') \<and> (gen_inv g \<longrightarrow> gen_inv g'))"


section \<open>VirtualMachine\<close>

text \<open>
  The operand stack is a list whose head is the top. \<open>Array.pop\<close> on an empty array
  returns \<open>undefined\<close> and leaves the array empty; it does not throw. The answers that
  \<open>prompt\<close> will give are part of the state (\<open>None\<close> is a dismissed dialog; after the
  last answer every dialog is dismissed).
\<close>

record vm =
  stack :: "jsvalue list"
  vm_variables :: "jsvalue list"
  callStack :: "(nat \<times> nat) list"
  pc :: int
  "output" :: "string list"
  prompts :: "string option list"

definition push :: "jsvalue \<Rightarrow> vm \<Rightarrow> vm" where
  "push v s = s\<lparr>stack := v # stack s\<rparr>"

definition pop :: "vm \<Rightarrow> jsvalue \<times> vm" where
  "pop s = (case stack s of [] \<Rightarrow> (JUndefined, s) | v # rest \<Rightarrow> (v, s\<lparr>stack := rest\<rparr>))"

definition binary :: "(jsvalue \<Rightarrow> jsvalue \<Rightarrow> jsvalue) \<Rightarrow> vm \<Rightarrow> vm" where
  \<comment> \<open>\<open>const b = pop(); const a = pop(); push(a op b)\<close>\<close>
  "binary f s = (let (b, s1) = pop s; (a, s2) = pop s1 in push (f a b) s2)"

definition js_arith :: "(number \<Rightarrow> number \<Rightarrow> number) \<Rightarrow> jsvalue \<Rightarrow> jsvalue \<Rightarrow> jsvalue" where
  "js_arith f a b = JNum (f (ToNumber a) (ToNumber b))"

definition js_and :: "jsvalue \<Rightarrow> jsvalue \<Rightarrow> jsvalue" where
  "js_and a b = (if truthy a then b else a)"

definition js_or :: "jsvalue \<Rightarrow> jsvalue \<Rightarrow> jsvalue" where
  "js_or a b = (if truthy a then a else b)"

definition nth_or_undefined :: "jsvalue list \<Rightarrow> nat \<Rightarrow> jsvalue" where
  "nth_or_undefined xs i = (if i < length xs then xs ! i else JUndefined)"

definition store :: "nat \<Rightarrow> jsvalue \<Rightarrow> jsvalue list \<Rightarrow> jsvalue list" where
  \<comment> \<open>\<open>while (variables.length <= i) variables.push(null); variables[i] = v\<close>\<close>
  "store i v vars = (vars @ replicate (Suc i - length vars) JNull)[i := v]"

fun pop_args :: "nat \<Rightarrow> jsvalue list \<Rightarrow> vm \<Rightarrow> jsvalue list \<times> vm" where
  \<comment> \<open>\<open>for (i = 0; i < argCount; i++) args.unshift(pop())\<close>\<close>
  "pop_args 0 args s = (args, s)"
| "pop_args (Suc k) args s = (let (v, s1) = pop s in pop_args k (v # args) s1)"

fun join :: "string \<Rightarrow> string list \<Rightarrow> string" where
  "join sep [] = []"
| "join sep [x] = x"
| "join sep (x # y # ys) = x @ sep @ join sep (y # ys)"

definition take_prompt :: "vm \<Rightarrow> string option \<times> vm" where
  "take_prompt s =
     (case prompts s of [] \<Rightarrow> (None, s) | a # rest \<Rightarrow> (a, s\<lparr>prompts := rest\<rparr>))"

text \<open>
  One instruction. The jumps set \<open>pc\<close> to their operand minus one, since the loop adds one
  after every instruction. \<open>HALT\<close> returns from \<open>executeInstruction\<close> only. The \<open>switch\<close>
  has no case for \<open>CALL\<close> and \<open>RETURN\<close>: they reach its \<open>default\<close>.
\<close>

fun executeInstruction :: "jsvalue list \<Rightarrow> instr \<Rightarrow> vm \<Rightarrow> error + vm" where
  "executeInstruction cs (LOAD_CONST i) s = Inr (push (nth_or_undefined cs i) s)"
| "executeInstruction cs (LOAD_VAR i) s =
     (if i \<ge> length (vm_variables s) then Inl (UndefinedVariableAtIndex i)
      else Inr (push (vm_variables s ! i) s))"
| "executeInstruction cs (STORE_VAR i) s =
     (let (v, s1) = pop s
      in Inr (push v (s1\<lparr>vm_variables := store i v (vm_variables s1)\<rparr>)))"
| "executeInstruction cs ADD s = Inr (binary js_add s)"
| "executeInstruction cs SUBTRACT s = Inr (binary (js_arith num_sub) s)"
| "executeInstruction cs MULTIPLY s = Inr (binary (js_arith num_mul) s)"
| "executeInstruction cs DIVIDE s =
     (let (div_b, s1) = pop s; (div_a, s2) = pop s1
      in if strict_eq div_b (JNum (Fin 0)) then Inl DivisionByZero
         else Inr (push (js_arith num_div div_a div_b) s2))"
| "executeInstruction cs MODULO s = Inr (binary (js_arith num_mod) s)"
| "executeInstruction cs NEGATE s =
     (let (v, s1) = pop s in Inr (push (JNum (num_neg (ToNumber v))) s1))"
| "executeInstruction cs EQUAL s = Inr (binary (\<lambda>a b. JBool (strict_eq a b)) s)"
| "executeInstruction cs NOT_EQUAL s = Inr (binary (\<lambda>a b. JBool (\<not> strict_eq a b)) s)"
| "executeInstruction cs LESS_THAN s = Inr (binary (\<lambda>a b. JBool (js_lt a b)) s)"
| "executeInstruction cs GREATER_THAN s = Inr (binary (\<lambda>a b. JBool (js_gt a b)) s)"
| "executeInstruction cs LESS_EQUAL s = Inr (binary (\<lambda>a b. JBool (js_le a b)) s)"
| "executeInstruction cs GREATER_EQUAL s = Inr (binary (\<lambda>a b. JBool (js_ge a b)) s)"
| "executeInstruction cs AND s = Inr (binary js_and s)"
| "executeInstruction cs OR s = Inr (binary js_or s)"
| "executeInstruction cs NOT s =
     (let (v, s1) = pop s in Inr (push (JBool (\<not> truthy v)) s1))"
| "executeInstruction cs (JUMP t) s = Inr (s\<lparr>pc := int t - 1\<rparr>)"
| "executeInstruction cs (JUMP_IF_FALSE t) s =
     (let (v, s1) = pop s in Inr (if \<not> truthy v then s1\<lparr>pc := int t - 1\<rparr> else s1))"
| "executeInstruction cs (JUMP_IF_TRUE t) s =
     (let (v, s1) = pop s in Inr (if truthy v then s1\<lparr>pc := int t - 1\<rparr> else s1))"
| "executeInstruction cs (PRINT n) s =
     (let argCount = (if n = 0 then 1 else n);
          (args, s1) = pop_args argCount [] s
      in Inr (s1\<lparr>output := output s1 @ [join '' '' (map ToString args)]\<rparr>))"
| "executeInstruction cs INPUT s =
     (let (answer, s1) = take_prompt s
      in Inr (push (JStr (case answer of None \<Rightarrow> '''' | Some a \<Rightarrow> a)) s1))"
| "executeInstruction cs POP s = Inr (snd (pop s))"
| "executeInstruction cs HALT s = Inr s"
| "executeInstruction cs (CALL n) s = Inl (UnknownOpcode ''CALL'')"
| "executeInstruction cs RETURN s = Inl (UnknownOpcode ''RETURN'')"

text \<open>
  The loop of \<open>execute\<close>. It ends when \<open>pc\<close> leaves the instruction list or when an
  instruction throws; the result is the output so far and the error, if any. A program
  that loops forever gives \<open>None\<close>.
\<close>

partial_function (option) run :: "instr list \<Rightarrow> jsvalue list \<Rightarrow> vm \<Rightarrow> (vm \<times> error option) option" where
  "run ins cs s =
     (if pc s < int (length ins) then
        (if pc s < 0 then Some (s, Some TypeError)
         else
           (case executeInstruction cs (ins ! nat (pc s)) s of
              Inl err \<Rightarrow> Some (s, Some err)
            | Inr s1 \<Rightarrow> run ins cs (s1\<lparr>pc := pc s1 + 1\<rparr>)))
      else Some (s, None))"

declare run.simps [code]

definition new_vm :: "string option list \<Rightarrow> vm" where
  "new_vm answers =
     \<lparr>stack = [], vm_variables = [], callStack = [], pc = 0, output = [], prompts = answers\<rparr>"

definition execute :: "string option list \<Rightarrow> bytecode \<Rightarrow> (string list \<times> error option) option" where
  "execute answers bc =
     (case run (fst bc) (snd bc) (new_vm answers) of
        None \<Rightarrow> None
      | Some (s, err) \<Rightarrow> Some (output s, err))"

subsection \<open>Instructions that pop\<close>

text \<open>
  The instructions whose case in \<open>executeInstruction\<close> calls \<open>this.stack.pop()\<close>.
\<close>

fun pops :: "instr \<Rightarrow> bool" where
  "pops (LOAD_CONST _) = False"
| "pops (LOAD_VAR _) = False"
| "pops (JUMP _) = False"
| "pops INPUT = False"
| "pops HALT = False"
| "pops (CALL _) = False"
| "pops RETURN = False"
| "pops _ = True"

section \<open>The pipeline of the application\<close>

text \<open>
  \<open>compile\<close> is the front of \<open>compileAndRun\<close>: lexer, parser and generator, in this order;
  the first stage that throws ends it.
\<close>

definition compile :: "language \<Rightarrow> string \<Rightarrow> (error + bytecode) option" where
  "compile lang src =
     (case parse (tokenize lang src) of
        None \<Rightarrow> None
      | Some (Inl err) \<Rightarrow> Some (Inl err)
      | Some (Inr ast) \<Rightarrow> Some (generate ast))"

text \<open>
  \<open>compileAndRun\<close> of the application, for the selected language, the answers that
  \<open>prompt\<close> will give, and the text of the editor. It succeeds with the output lines, or
  fails with the error of the stage that threw; the output printed before an error of
  the virtual machine is dropped.
\<close>

definition compileAndRun :: "language \<Rightarrow> string option list \<Rightarrow> string \<Rightarrow> (error + string list) option" where
  "compileAndRun lang answers src =
     (if trim src = [] then Some (Inl NoCode)
      else
        (case compile lang src of
           None \<Rightarrow> None
         | Some (Inl err) \<Rightarrow> Some (Inl err)
         | Some (Inr bc) \<Rightarrow>
             (case execute answers bc of
                None \<Rightarrow> None
              | Some (out, Some err) \<Rightarrow> Some (Inl err)
              | Some (out, None) \<Rightarrow> Some (Inr out))))"
section \<open>Properties of the generator\<close>

lemma gen_step_refl: "gen_step g g"
  by (simp add: gen_step_def)

lemma gen_step_trans: "gen_step g h \<Longrightarrow> gen_step h k \<Longrightarrow> gen_step g k"
  by (auto simp: gen_step_def)

lemma targets_le_mono: "targets_le n ins \<Longrightarrow> n \<le> m \<Longrightarrow> targets_le m ins"
  by (auto simp: targets_le_def list_all_iff split: option.splits)

lemma gen_step_emit:
  "(\<And>t. jump_target i = Some t \<Longrightarrow> t \<le> Suc (length (instructions g))) \<Longrightarrow> gen_step g (emit i g)"
  by (auto simp: gen_step_def gen_inv_def emit_def targets_le_def list_all_iff split: option.splits)

lemma gen_step_emit_plain: "jump_target i = None \<Longrightarrow> gen_step g (emit i g)"
  by (rule gen_step_emit) simp

lemma gen_step_emit_const: "gen_step g (emit_const v g)"
  by (auto simp: gen_step_def gen_inv_def emit_const_def addConstant_def emit_def targets_le_def list_all_iff
      split: option.splits)

lemma jump_target_set_operand:
  "jump_target (set_operand n i) = Some t \<Longrightarrow> t = n"
  by (cases i) auto

lemma gen_step_patch: "gen_step g (patch j g)"
  unfolding gen_step_def gen_inv_def patch_def targets_le_def list_all_iff
  by (auto split: option.splits dest!: set_update_subset_insert[THEN subsetD] jump_target_set_operand)

lemma gen_step_declare_var: "gen_step g (declare_var x g)"
  by (auto simp: gen_step_def gen_inv_def declare_var_def emit_def targets_le_def list_all_iff Let_def
      split: option.splits)

lemma gen_step_params: "gen_step g (foldl (\<lambda>h p. declare_var p h) g ps)"
proof (induction ps arbitrary: g)
  case Nil show ?case by (simp add: gen_step_refl)
next
  case (Cons p ps)
  show ?case using gen_step_trans[OF gen_step_declare_var Cons.IH] by simp
qed

lemma gen_step_functions: "gen_step g (g\<lparr>functions := f\<rparr>)"
  by (simp add: gen_step_def gen_inv_def)

lemma gen_step_binary: "gen_step g (emit_binary op g)"
  by (simp add: emit_binary_def gen_step_refl gen_step_emit_plain)

lemma gen_step_unary: "gen_step g (emit_unary op g)"
  by (simp add: emit_unary_def gen_step_refl gen_step_emit_plain)

lemma gen_step_identifier: "visitIdentifier x g = Inr g' \<Longrightarrow> gen_step g g'"
  by (auto simp: visitIdentifier_def gen_step_emit_plain gen_step_emit_const split: option.splits)

lemma gen_step_jump_back:
  "gen_step g0 g \<Longrightarrow> gen_step g (emit (JUMP (length (instructions g0))) g)"
  by (rule gen_step_emit) (simp add: gen_step_def)


lemmas gen_steps = gen_step_refl gen_step_emit_plain gen_step_emit_const gen_step_patch
  gen_step_declare_var gen_step_params gen_step_functions gen_step_binary gen_step_unary
  gen_step_identifier gen_step_jump_back

lemma gen_step_emit_jif: "gen_step g (emit (JUMP_IF_FALSE 0) g)"
  by (rule gen_step_emit) simp

lemma gen_step_emit_jump0: "gen_step g (emit (JUMP 0) g)"
  by (rule gen_step_emit) simp

lemma visit_gen_step:
  "visit n g = Inr g' \<Longrightarrow> gen_step g g'"
  "visit_all ns g = Inr g' \<Longrightarrow> gen_step g g'"
proof (induction n g and ns g arbitrary: g' and g' rule: visit_visit_all.induct)
  case (3 ident initializer g)
  show ?case
  proof (cases initializer)
    case None
    with 3 show ?thesis
      by (auto intro: gen_step_trans[OF gen_step_emit_const gen_step_declare_var])
  next
    case (Some e)
    with 3 obtain g1 where e: "visit e g = Inr g1" and g': "g' = declare_var ident g1"
      by (auto split: sum.splits)
    from "3.IH"[OF Some e] have "gen_step g g1" .
    then show ?thesis unfolding g' by (rule gen_step_trans) (rule gen_step_declare_var)
  qed
next
  case (4 name parameters body g)
  define g2 where "g2 = foldl (\<lambda>h p. declare_var p h)
      (g\<lparr>functions := AList.update name (length (instructions g), length parameters) (functions g)\<rparr>)
      (rev parameters)"
  from "4.prems" obtain g3 where b: "visit_all body g2 = Inr g3"
    and g': "g' = emit RETURN (emit_const JNull g3)"
    by (auto simp: Let_def g2_def split: sum.splits)
  have "gen_step g g2"
    unfolding g2_def by (rule gen_step_trans[OF gen_step_functions gen_step_params])
  moreover have "gen_step g2 g3"
    using "4.IH"[OF refl refl g2_def b] .
  moreover have "gen_step g3 g'"
    unfolding g' by (rule gen_step_trans[OF gen_step_emit_const gen_step_emit_plain]) simp
  ultimately show ?case by (blast intro: gen_step_trans)
next
  case (5 condition thenStatement elseStatement g)
  show ?case
  proof (cases elseStatement)
    case None
    with "5.prems" obtain g1 g3 where c: "visit condition g = Inr g1"
      and t: "visit thenStatement (emit (JUMP_IF_FALSE 0) g1) = Inr g3"
      and g': "g' = patch (length (instructions g1)) g3"
      by (auto simp: Let_def split: sum.splits)
    have s1: "gen_step g g1" using "5.IH"(1)[OF c] .
    have s2: "gen_step (emit (JUMP_IF_FALSE 0) g1) g3" using "5.IH"(2)[OF c refl refl t] .
    show ?thesis unfolding g'
      by (rule gen_step_trans[OF s1 gen_step_trans[OF gen_step_emit_jif
            gen_step_trans[OF s2 gen_step_patch]]])
  next
    case (Some els)
    with "5.prems" obtain g1 g3 g6 where c: "visit condition g = Inr g1"
      and t: "visit thenStatement (emit (JUMP_IF_FALSE 0) g1) = Inr g3"
      and e: "visit els (patch (length (instructions g1)) (emit (JUMP 0) g3)) = Inr g6"
      and g': "g' = patch (length (instructions g3)) g6"
      by (auto simp: Let_def split: sum.splits)
    have s1: "gen_step g g1" using "5.IH"(1)[OF c] .
    have s2: "gen_step (emit (JUMP_IF_FALSE 0) g1) g3" using "5.IH"(2)[OF c refl refl t] .
    have s3: "gen_step g g3"
      by (rule gen_step_trans[OF s1 gen_step_trans[OF gen_step_emit_jif s2]])
    have s4: "gen_step (patch (length (instructions g1)) (emit (JUMP 0) g3)) g6"
      using "5.IH"(3)[OF c refl refl t Some refl refl refl e] .
    have s5: "gen_step g3 g6"
      by (rule gen_step_trans[OF gen_step_emit_jump0 gen_step_trans[OF gen_step_patch s4]])
    show ?thesis unfolding g'
      by (rule gen_step_trans[OF s3 gen_step_trans[OF s5 gen_step_patch]])
  qed
next
  case (6 condition body g)
  from "6.prems" obtain g1 g3 where c: "visit condition g = Inr g1"
    and b: "visit body (emit (JUMP_IF_FALSE 0) g1) = Inr g3"
    and g': "g' = patch (length (instructions g1)) (emit (JUMP (length (instructions g))) g3)"
    by (auto simp: Let_def split: sum.splits)
  have s1: "gen_step g g1" using "6.IH"(1)[OF refl c] .
  have s2: "gen_step (emit (JUMP_IF_FALSE 0) g1) g3" using "6.IH"(2)[OF refl c refl refl b] .
  have s3: "gen_step g g3"
    by (rule gen_step_trans[OF s1 gen_step_trans[OF gen_step_emit_jif s2]])
  show ?case unfolding g'
    by (rule gen_step_trans[OF s3 gen_step_trans[OF gen_step_jump_back[OF s3] gen_step_patch]])
next
  case (7 initializer condition increment body g)
  from "7.prems" obtain g1 g2 g4 g5 where
    i: "(case initializer of
           Some i \<Rightarrow>
             (case visit i g of
                Inl err \<Rightarrow> Inl err
              | Inr h \<Rightarrow> Inr (if is_expression_statement i then emit POP h else h))
         | None \<Rightarrow> Inr g) = Inr g1"
    and c: "(case condition of
               Some c \<Rightarrow> visit c g1
             | None \<Rightarrow> Inr (emit_const (JBool True) g1)) = Inr g2"
    and b: "visit body (emit (JUMP_IF_FALSE 0) g2) = Inr g4"
    and n: "(case increment of
               Some inc \<Rightarrow>
                 (case visit inc g4 of
                    Inl err \<Rightarrow> Inl err
                  | Inr h \<Rightarrow> Inr (emit POP h))
             | None \<Rightarrow> Inr g4) = Inr g5"
    and g': "g' = patch (length (instructions g2)) (emit (JUMP (length (instructions g1))) g5)"
    by (simp add: Let_def split: sum.splits)
  have s1: "gen_step g g1"
  proof (cases initializer)
    case None
    with i show ?thesis by (simp add: gen_step_refl)
  next
    case (Some x)
    with i obtain h where h: "visit x g = Inr h"
      and g1: "g1 = (if is_expression_statement x then emit POP h else h)"
      by (auto split: sum.splits)
    have "gen_step g h" using "7.IH"(1)[OF Some h] .
    moreover have "gen_step h g1" unfolding g1 by (simp add: gen_step_refl gen_step_emit_plain)
    ultimately show ?thesis by (rule gen_step_trans)
  qed
  have s2: "gen_step g1 g2"
  proof (cases condition)
    case None
    with c show ?thesis by (auto simp: gen_step_emit_const)
  next
    case (Some x)
    with c have "visit x g1 = Inr g2" by simp
    then show ?thesis using "7.IH"(2)[OF i refl Some] by simp
  qed
  have s3: "gen_step (emit (JUMP_IF_FALSE 0) g2) g4"
    using "7.IH"(3)[OF i refl c refl refl b] .
  have s4: "gen_step g4 g5"
  proof (cases increment)
    case None
    with n show ?thesis by (simp add: gen_step_refl)
  next
    case (Some x)
    with n obtain h where h: "visit x g4 = Inr h" and g5: "g5 = emit POP h"
      by (auto split: sum.splits)
    have "gen_step g4 h" using "7.IH"(4)[OF i refl c refl refl b Some h] .
    then show ?thesis unfolding g5
      by (rule gen_step_trans) (simp add: gen_step_emit_plain)
  qed
  have s5: "gen_step g1 g5"
    by (rule gen_step_trans[OF s2 gen_step_trans[OF gen_step_emit_jif gen_step_trans[OF s3 s4]]])
  show ?case unfolding g'
    by (rule gen_step_trans[OF s1 gen_step_trans[OF s5
          gen_step_trans[OF gen_step_jump_back[OF s5] gen_step_patch]]])
next
  case (8 val g)
  show ?case
  proof (cases val)
    case None
    with 8 show ?thesis
      by (auto intro!: gen_step_trans[OF gen_step_emit_const gen_step_emit_plain])
  next
    case (Some e)
    with 8 obtain g1 where e: "visit e g = Inr g1" and g': "g' = emit RETURN g1"
      by (auto split: sum.splits)
    from "8.IH"[OF Some e] show ?thesis unfolding g'
      by (rule gen_step_trans) (simp add: gen_step_emit_plain)
  qed
next
  case (9 expr g)
  from "9.prems" obtain g1 where e: "visit expr g = Inr g1" and g': "g' = emit POP g1"
    by (auto split: sum.splits)
  from "9.IH"[OF e] show ?case unfolding g'
    by (rule gen_step_trans) (simp add: gen_step_emit_plain)
next
  case (10 left operator right g)
  from "10.prems" obtain g1 g2 where l: "visit left g = Inr g1" and r: "visit right g1 = Inr g2"
    and g': "g' = emit_binary operator g2"
    by (auto split: sum.splits)
  show ?case unfolding g'
    by (rule gen_step_trans[OF "10.IH"(1)[OF l]
          gen_step_trans[OF "10.IH"(2)[OF l r] gen_step_binary]])
next
  case (11 operator operand g)
  from "11.prems" obtain g1 where e: "visit operand g = Inr g1" and g': "g' = emit_unary operator g1"
    by (auto split: sum.splits)
  from "11.IH"[OF e] show ?case unfolding g'
    by (rule gen_step_trans) (rule gen_step_unary)
next
  case (12 callee args g)
  show ?case
  proof (cases "callee = Identifier ''print'' \<or> callee = Identifier ''achchidu''")
    case True
    with "12.prems" obtain g1 where a: "visit_all args g = Inr g1"
      and g': "g' = emit (PRINT (length args)) g1"
      by (auto split: sum.splits)
    from "12.IH"(1)[OF True a] show ?thesis unfolding g'
      by (rule gen_step_trans) (simp add: gen_step_emit_plain)
  next
    case False
    note np = False
    show ?thesis
    proof (cases "callee = Identifier ''input'' \<or> callee = Identifier ''ulle''")
      case True
      with np "12.prems" have "g' = emit INPUT g" by auto
      then show ?thesis by (simp add: gen_step_emit_plain)
    next
      case False
      with np "12.prems" obtain g1 g2 where a: "visit_all args g = Inr g1"
        and c: "visit callee g1 = Inr g2" and g': "g' = emit (CALL (length args)) g2"
        by (auto split: sum.splits)
      have "gen_step g2 g'" unfolding g' by (simp add: gen_step_emit_plain)
      with "12.IH"(2)[OF np False a] "12.IH"(3)[OF np False a c]
      show ?thesis by (blast intro: gen_step_trans)
    qed
  qed
next
  case (15 ident val g)
  from "15.prems" obtain g1 where e: "visit val g = Inr g1"
    and g': "g' = (case map_of (variables g1) ident of
                     Some varIndex \<Rightarrow> emit (STORE_VAR varIndex) g1
                   | None \<Rightarrow> declare_var ident g1)"
    by (auto split: sum.splits option.splits)
  have "gen_step g1 g'" unfolding g'
    by (simp add: gen_step_emit_plain gen_step_declare_var split: option.splits)
  with "15.IH"[OF e] show ?case by (rule gen_step_trans)
next
  case (17 stmt rest g)
  from "17.prems" obtain g1 where s: "visit stmt g = Inr g1" and r: "visit_all rest g1 = Inr g'"
    by (auto split: sum.splits)
  show ?case by (rule gen_step_trans[OF "17.IH"(1)[OF s] "17.IH"(2)[OF s r]])
qed (auto simp: gen_steps)

text \<open>
  Claim C4. When \<open>generate\<close> succeeds, the operand of every \<open>JUMP\<close>, \<open>JUMP_IF_FALSE\<close> and
  \<open>JUMP_IF_TRUE\<close> of the program is the index of one of its instructions, and its last
  instruction is \<open>HALT\<close>. The placeholders of \<open>if\<close>, \<open>while\<close> and \<open>for\<close> are patched to
  the length of the instruction list at the time, and \<open>HALT\<close> comes after all of them.
\<close>

theorem generate_targets_valid:
  assumes "generate program = Inr (ins, cs)"
  shows "valid_targets ins \<and> ins \<noteq> [] \<and> last ins = HALT"
proof -
  from assms obtain g where v: "visit program new_gen = Inr g"
    and ins: "ins = instructions g @ [HALT]"
    by (auto simp: generate_def emit_def split: sum.splits)
  have "gen_inv new_gen" by (simp add: gen_inv_def new_gen_def targets_le_def)
  with visit_gen_step(1)[OF v] have "gen_inv g" by (simp add: gen_step_def)
  then have "valid_targets ins"
    unfolding ins gen_inv_def targets_le_def valid_targets_def list_all_iff
    by (auto split: option.splits)
  then show ?thesis by (simp add: ins)
qed

theorem generate_targets_valid_witness:
  "generate (Program [
     VarDeclaration ''i'' (Some (Literal (JNum (Fin 0)) LNumber)),
     WhileStatement
       (BinaryExpression (Identifier ''i'') ''<'' (Literal (JNum (Fin 3)) LNumber))
       (BlockStatement [
          IfStatement
            (BinaryExpression (Identifier ''i'') ''=='' (Literal (JNum (Fin 1)) LNumber))
            (ExpressionStatement
               (CallExpression (Identifier ''print'') [Literal (JStr ''one'') LString]))
            (Some (ExpressionStatement
               (CallExpression (Identifier ''print'') [Identifier ''i'']))),
          ExpressionStatement
            (AssignmentExpression ''i''
               (BinaryExpression (Identifier ''i'') ''+'' (Literal (JNum (Fin 1)) LNumber)))])])
   = Inr ([LOAD_CONST 0, STORE_VAR 0, LOAD_VAR 0, LOAD_CONST 1, LESS_THAN,
           JUMP_IF_FALSE 23, LOAD_VAR 0, LOAD_CONST 2, EQUAL, JUMP_IF_FALSE 14,
           LOAD_CONST 3, PRINT 1, POP, JUMP 17, LOAD_VAR 0, PRINT 1, POP,
           LOAD_VAR 0, LOAD_CONST 2, ADD, STORE_VAR 0, POP, JUMP 2, HALT],
          [JNum (Fin 0), JNum (Fin 3), JNum (Fin 1), JStr ''one''])
   \<and> valid_targets
         [LOAD_CONST 0, STORE_VAR 0, LOAD_VAR 0, LOAD_CONST 1, LESS_THAN,
          JUMP_IF_FALSE 23, LOAD_VAR 0, LOAD_CONST 2, EQUAL, JUMP_IF_FALSE 14,
          LOAD_CONST 3, PRINT 1, POP, JUMP 17, LOAD_VAR 0, PRINT 1, POP,
          LOAD_VAR 0, LOAD_CONST 2, ADD, STORE_VAR 0, POP, JUMP 2, HALT]"
proof -
  have h: "generate (Program [
     VarDeclaration ''i'' (Some (Literal (JNum (Fin 0)) LNumber)),
     WhileStatement
       (BinaryExpression (Identifier ''i'') ''<'' (Literal (JNum (Fin 3)) LNumber))
       (BlockStatement [
          IfStatement
            (BinaryExpression (Identifier ''i'') ''=='' (Literal (JNum (Fin 1)) LNumber))
            (ExpressionStatement
               (CallExpression (Identifier ''print'') [Literal (JStr ''one'') LString]))
            (Some (ExpressionStatement
               (CallExpression (Identifier ''print'') [Identifier ''i'']))),
          ExpressionStatement
            (AssignmentExpression ''i''
               (BinaryExpression (Identifier ''i'') ''+'' (Literal (JNum (Fin 1)) LNumber)))])])
   = Inr ([LOAD_CONST 0, STORE_VAR 0, LOAD_VAR 0, LOAD_CONST 1, LESS_THAN,
           JUMP_IF_FALSE 23, LOAD_VAR 0, LOAD_CONST 2, EQUAL, JUMP_IF_FALSE 14,
           LOAD_CONST 3, PRINT 1, POP, JUMP 17, LOAD_VAR 0, PRINT 1, POP,
           LOAD_VAR 0, LOAD_CONST 2, ADD, STORE_VAR 0, POP, JUMP 2, HALT],
          [JNum (Fin 0), JNum (Fin 3), JNum (Fin 1), JStr ''one''])"
    by code_simp
  from generate_targets_valid[OF h] h show ?thesis by simp
qed

section \<open>Properties of the virtual machine\<close>

lemma pop_empty: "stack s = [] \<Longrightarrow> pop s = (JUndefined, s)"
  by (simp add: pop_def)

lemma pop_args_total: "\<exists>args s1. pop_args k acc s = (args, s1)"
  by (cases "pop_args k acc s") simp

lemma pop_undefined_top:
  "stack s = [] \<Longrightarrow> pop (s\<lparr>stack := [JUndefined]\<rparr>) = (JUndefined, s)"
  by (simp add: pop_def)

lemma pop_args_undefined_top:
  "stack s = [] \<Longrightarrow> 0 < k \<Longrightarrow>
   pop_args k acc (s\<lparr>stack := [JUndefined]\<rparr>) = pop_args k acc s"
  by (cases k) (simp_all add: pop_undefined_top pop_empty)

text \<open>
  Claim C6, as stated, at a concrete input: a program whose first instruction is \<open>ADD\<close>
  starts on the empty stack, and it runs to its end without any error. \<open>ADD\<close> adds
  \<open>undefined\<close> to \<open>undefined\<close>, \<open>PRINT\<close> prints the \<open>NaN\<close>, and \<open>POP\<close> pops the empty stack once
  more.
\<close>

theorem empty_stack_pop_counterexample:
  "execute [] ([ADD, PRINT 1, POP, HALT], []) = Some ([''NaN''], None)"
  by code_simp

text \<open>
  Claim C6, amended. An instruction that pops, executed on the empty stack, does not
  fail: the pop gives \<open>undefined\<close> and leaves the stack empty, and the instruction
  completes with that operand. It does what it does on the stack that holds \<open>undefined\<close>
  alone: \<open>STORE_VAR\<close> stores \<open>undefined\<close> and pushes it, \<open>ADD\<close> and \<open>DIVIDE\<close> push \<open>NaN\<close>,
  \<open>EQUAL\<close> and \<open>NOT\<close> push \<open>true\<close>, \<open>JUMP_IF_FALSE\<close> jumps and \<open>JUMP_IF_TRUE\<close> does not,
  \<open>PRINT\<close> prints \<open>undefined\<close> for every value it asks for, and \<open>POP\<close> changes nothing.
\<close>

theorem pop_on_empty_stack_continues:
  assumes "pops i" and "stack s = []"
  shows "pop s = (JUndefined, s)
   \<and> (\<exists>s'. executeInstruction cs i s = Inr s')
   \<and> executeInstruction cs i s = executeInstruction cs i (s\<lparr>stack := [JUndefined]\<rparr>)
   \<and> executeInstruction cs (STORE_VAR k) s
       = Inr (s\<lparr>stack := [JUndefined], vm_variables := store k JUndefined (vm_variables s)\<rparr>)
   \<and> executeInstruction cs ADD s = Inr (s\<lparr>stack := [JNum NaN]\<rparr>)
   \<and> executeInstruction cs DIVIDE s = Inr (s\<lparr>stack := [JNum NaN]\<rparr>)
   \<and> executeInstruction cs EQUAL s = Inr (s\<lparr>stack := [JBool True]\<rparr>)
   \<and> executeInstruction cs NOT s = Inr (s\<lparr>stack := [JBool True]\<rparr>)
   \<and> executeInstruction cs (JUMP_IF_FALSE t) s = Inr (s\<lparr>pc := int t - 1\<rparr>)
   \<and> executeInstruction cs (JUMP_IF_TRUE t) s = Inr s
   \<and> executeInstruction cs (PRINT 1) s = Inr (s\<lparr>output := output s @ [''undefined'']\<rparr>)
   \<and> executeInstruction cs (PRINT 2) s
       = Inr (s\<lparr>output := output s @ [''undefined undefined'']\<rparr>)
   \<and> executeInstruction cs POP s = Inr s"
proof -
  have p: "pop s = (JUndefined, s)" using assms(2) by (rule pop_empty)
  have q: "pop (s\<lparr>stack := [JUndefined]\<rparr>) = (JUndefined, s)"
    using assms(2) by (rule pop_undefined_top)
  have e: "\<exists>s'. executeInstruction cs i s = Inr s'"
  proof (cases i)
    case (PRINT n)
    obtain args s1 where "pop_args (if n = 0 then 1 else n) [] s = (args, s1)"
      using pop_args_total by blast
    then show ?thesis using PRINT by (simp add: Let_def)
  qed (use assms(1) p in \<open>simp_all add: binary_def Let_def\<close>)
  have u: "executeInstruction cs i s = executeInstruction cs i (s\<lparr>stack := [JUndefined]\<rparr>)"
  proof (cases i)
    case (PRINT n)
    have "pop_args (if n = 0 then 1 else n) [] (s\<lparr>stack := [JUndefined]\<rparr>)
            = pop_args (if n = 0 then 1 else n) [] s"
      using assms(2) by (intro pop_args_undefined_top) simp_all
    then show ?thesis using PRINT by (simp add: Let_def)
  qed (use assms(1) p q in \<open>simp_all add: binary_def Let_def\<close>)
  have st: "executeInstruction cs (STORE_VAR k) s
       = Inr (s\<lparr>stack := [JUndefined], vm_variables := store k JUndefined (vm_variables s)\<rparr>)"
    using p assms(2) by (simp add: push_def)
  have ad: "executeInstruction cs ADD s = Inr (s\<lparr>stack := [JNum NaN]\<rparr>)"
    using p assms(2) by (simp add: binary_def push_def js_add_def is_string_def)
  have dv: "executeInstruction cs DIVIDE s = Inr (s\<lparr>stack := [JNum NaN]\<rparr>)"
    using p assms(2) by (simp add: push_def js_arith_def)
  have eq: "executeInstruction cs EQUAL s = Inr (s\<lparr>stack := [JBool True]\<rparr>)"
    using p assms(2) by (simp add: binary_def push_def)
  have nt: "executeInstruction cs NOT s = Inr (s\<lparr>stack := [JBool True]\<rparr>)"
    using p assms(2) by (simp add: push_def)
  have jf: "executeInstruction cs (JUMP_IF_FALSE t) s = Inr (s\<lparr>pc := int t - 1\<rparr>)"
    using p by simp
  have jt: "executeInstruction cs (JUMP_IF_TRUE t) s = Inr s"
    using p by simp
  have p1: "executeInstruction cs (PRINT 1) s = Inr (s\<lparr>output := output s @ [''undefined'']\<rparr>)"
    using p by simp
  have p2: "executeInstruction cs (PRINT 2) s
       = Inr (s\<lparr>output := output s @ [''undefined undefined'']\<rparr>)"
    using p by (simp add: numeral_2_eq_2)
  have po: "executeInstruction cs POP s = Inr s"
    using p by simp
  show ?thesis using p e u st ad dv eq nt jf jt p1 p2 po by blast
qed

theorem pop_on_empty_stack_continues_witness:
  "pops ADD \<and> stack (new_vm []) = []
   \<and> pop (new_vm []) = (JUndefined, new_vm [])
   \<and> executeInstruction [] ADD (new_vm [])
       = executeInstruction [] ADD ((new_vm [])\<lparr>stack := [JUndefined]\<rparr>)
   \<and> executeInstruction [] ADD (new_vm []) = Inr ((new_vm [])\<lparr>stack := [JNum NaN]\<rparr>)
   \<and> executeInstruction [] (PRINT 1) (new_vm [])
       = Inr ((new_vm [])\<lparr>output := [''undefined'']\<rparr>)"
proof -
  have a: "pops ADD" by simp
  have b: "stack (new_vm []) = []" by (simp add: new_vm_def)
  have o: "output (new_vm []) = []" by (simp add: new_vm_def)
  note t = pop_on_empty_stack_continues[OF a b, where cs = "[]"]
  from t have c0: "pop (new_vm []) = (JUndefined, new_vm [])" by blast
  from t have c1: "executeInstruction [] ADD (new_vm [])
       = executeInstruction [] ADD ((new_vm [])\<lparr>stack := [JUndefined]\<rparr>)"
    by blast
  from t have c2: "executeInstruction [] ADD (new_vm []) = Inr ((new_vm [])\<lparr>stack := [JNum NaN]\<rparr>)"
    by blast
  from t have "executeInstruction [] (PRINT 1) (new_vm [])
       = Inr ((new_vm [])\<lparr>output := output (new_vm []) @ [''undefined'']\<rparr>)"
    by blast
  then have c3: "executeInstruction [] (PRINT 1) (new_vm [])
       = Inr ((new_vm [])\<lparr>output := [''undefined'']\<rparr>)"
    by (simp only: o append_Nil)
  show ?thesis using a b c0 c1 c2 c3 by blast
qed

text \<open>
  Claim C10. \<open>PRINT 0\<close> does what \<open>PRINT 1\<close> does: it pops one value and prints it. On a
  stack with \<open>v\<close> on top it prints the text of \<open>v\<close> and leaves the rest; on the empty stack
  it prints \<open>undefined\<close>. So \<open>print();\<close>, which compiles to \<open>PRINT 0\<close>, prints the
  \<open>undefined\<close> that the empty stack gives, and the run succeeds; after two var
  declarations, whose values are still on the stack, it prints the second of them.
\<close>

theorem print_zero_counts_one:
  "executeInstruction cs (PRINT 0) s = executeInstruction cs (PRINT 1) s
   \<and> executeInstruction cs (PRINT 0) s
       = Inr ((snd (pop s))\<lparr>output := output s @ [ToString (fst (pop s))]\<rparr>)
   \<and> executeInstruction cs (PRINT 0) (s\<lparr>stack := v # rest\<rparr>)
       = Inr (s\<lparr>stack := rest, output := output s @ [ToString v]\<rparr>)
   \<and> executeInstruction cs (PRINT 0) (s\<lparr>stack := []\<rparr>)
       = Inr (s\<lparr>stack := [], output := output s @ [''undefined'']\<rparr>)
   \<and> execute [] ([LOAD_CONST 0, LOAD_CONST 1, PRINT 0, PRINT 0, PRINT 0, HALT],
                  [JStr ''a'', JStr ''b''])
     = Some ([''b'', ''a'', ''undefined''], None)
   \<and> compile english ''print();'' = Some (Inr ([PRINT 0, POP, HALT], []))
   \<and> compileAndRun english [] ''print();'' = Some (Inr [''undefined''])
   \<and> compile english ''var a = 1; var b = 2; print();''
     = Some (Inr ([LOAD_CONST 0, STORE_VAR 0, LOAD_CONST 1, STORE_VAR 1, PRINT 0, POP, HALT],
                  [JNum (Fin 1), JNum (Fin 2)]))
   \<and> run [LOAD_CONST 0, STORE_VAR 0, LOAD_CONST 1, STORE_VAR 1, PRINT 0, HALT]
          [JNum (Fin 1), JNum (Fin 2)] (new_vm [])
     = Some (\<lparr>stack = [JNum (Fin 1)], vm_variables = [JNum (Fin 1), JNum (Fin 2)],
              callStack = [], pc = 6, output = [''2''], prompts = []\<rparr>, None)
   \<and> compileAndRun english [] ''var a = 1; var b = 2; print();'' = Some (Inr [''2''])"
proof -
  have a: "executeInstruction cs (PRINT 0) s
       = Inr ((snd (pop s))\<lparr>output := output s @ [ToString (fst (pop s))]\<rparr>)"
    by (simp add: Let_def pop_def split: list.splits prod.splits)
  have a1: "executeInstruction cs (PRINT 0) (s\<lparr>stack := v # rest\<rparr>)
       = Inr (s\<lparr>stack := rest, output := output s @ [ToString v]\<rparr>)"
    by (simp add: Let_def pop_def)
  have a2: "executeInstruction cs (PRINT 0) (s\<lparr>stack := []\<rparr>)
       = Inr (s\<lparr>stack := [], output := output s @ [''undefined'']\<rparr>)"
    by (simp add: Let_def pop_def)
  have a3: "execute [] ([LOAD_CONST 0, LOAD_CONST 1, PRINT 0, PRINT 0, PRINT 0, HALT],
                  [JStr ''a'', JStr ''b''])
     = Some ([''b'', ''a'', ''undefined''], None)"
    by code_simp
  have b: "compile english ''print();'' = Some (Inr ([PRINT 0, POP, HALT], []))"
    by code_simp
  have c: "compileAndRun english [] ''print();'' = Some (Inr [''undefined''])"
    by code_simp
  have d: "compile english ''var a = 1; var b = 2; print();''
     = Some (Inr ([LOAD_CONST 0, STORE_VAR 0, LOAD_CONST 1, STORE_VAR 1, PRINT 0, POP, HALT],
                  [JNum (Fin 1), JNum (Fin 2)]))"
    by code_simp
  have e: "run [LOAD_CONST 0, STORE_VAR 0, LOAD_CONST 1, STORE_VAR 1, PRINT 0, HALT]
          [JNum (Fin 1), JNum (Fin 2)] (new_vm [])
     = Some (\<lparr>stack = [JNum (Fin 1)], vm_variables = [JNum (Fin 1), JNum (Fin 2)],
              callStack = [], pc = 6, output = [''2''], prompts = []\<rparr>, None)"
    by code_simp
  have f: "compileAndRun english [] ''var a = 1; var b = 2; print();'' = Some (Inr [''2''])"
    by code_simp
  show ?thesis using a a1 a2 a3 b c d e f by simp
qed

text \<open>
  Claim C8. The program \<open>var s = "hi"; print(s + " " + 3);\<close> prints the one line \<open>hi 3\<close>.
  Its two \<open>ADD\<close>s are in the order of a sum that associates to the left, and \<open>ADD\<close> on
  two operands of which one is a string pushes the concatenation of their texts.
\<close>

theorem string_add_concatenates:
  "compile english ''var s = \"hi\"; print(s + \" \" + 3);''
     = Some (Inr ([LOAD_CONST 0, STORE_VAR 0, LOAD_VAR 0, LOAD_CONST 1, ADD,
                   LOAD_CONST 2, ADD, PRINT 1, POP, HALT],
                  [JStr ''hi'', JStr '' '', JNum (Fin 3)]))
   \<and> compileAndRun english [] ''var s = \"hi\"; print(s + \" \" + 3);'' = Some (Inr [''hi 3''])
   \<and> (is_string a \<or> is_string b \<longrightarrow>
        executeInstruction cs ADD (s\<lparr>stack := b # a # rest\<rparr>)
          = Inr (s\<lparr>stack := JStr (ToString a @ ToString b) # rest\<rparr>))"
proof -
  have a: "compile english ''var s = \"hi\"; print(s + \" \" + 3);''
     = Some (Inr ([LOAD_CONST 0, STORE_VAR 0, LOAD_VAR 0, LOAD_CONST 1, ADD,
                   LOAD_CONST 2, ADD, PRINT 1, POP, HALT],
                  [JStr ''hi'', JStr '' '', JNum (Fin 3)]))"
    by code_simp
  have b: "compileAndRun english [] ''var s = \"hi\"; print(s + \" \" + 3);''
     = Some (Inr [''hi 3''])"
    by code_simp
  have c: "is_string a \<or> is_string b \<longrightarrow>
        executeInstruction cs ADD (s\<lparr>stack := b # a # rest\<rparr>)
          = Inr (s\<lparr>stack := JStr (ToString a @ ToString b) # rest\<rparr>)"
    by (simp add: binary_def pop_def push_def js_add_def)
  show ?thesis using a b c by blast
qed

theorem string_add_concatenates_witness:
  "is_string (JStr ''hi '')
   \<and> executeInstruction [] ADD ((new_vm [])\<lparr>stack := [JNum (Fin 3), JStr ''hi '']\<rparr>)
       = Inr ((new_vm [])\<lparr>stack := [JStr ''hi 3'']\<rparr>)"
proof -
  have a: "is_string (JStr ''hi '')" by (simp add: is_string_def)
  have t: "ToString (JStr ''hi '') @ ToString (JNum (Fin 3)) = ''hi 3''" by code_simp
  from string_add_concatenates[where a = "JStr ''hi ''" and b = "JNum (Fin 3)" and cs = "[]"
      and s = "new_vm []" and rest = "[]"] a
  have "executeInstruction [] ADD ((new_vm [])\<lparr>stack := [JNum (Fin 3), JStr ''hi '']\<rparr>)
       = Inr ((new_vm [])\<lparr>stack := [JStr (ToString (JStr ''hi '') @ ToString (JNum (Fin 3)))]\<rparr>)"
    by blast
  with a t show ?thesis by simp
qed

text \<open>
  Claim C5 on the code. \<open>MODULO\<close> has no test of its divisor: \<open>print(5 % 0);\<close> prints
  \<open>NaN\<close> and the run succeeds, where \<open>print(5 / 0);\<close> fails with the division by zero
  that \<open>DIVIDE\<close> throws. \<open>MODULO\<close> throws in no state.
\<close>

theorem modulo_by_zero_is_nan:
  "compile english ''print(5 % 0);''
     = Some (Inr ([LOAD_CONST 0, LOAD_CONST 1, MODULO, PRINT 1, POP, HALT],
                  [JNum (Fin 5), JNum (Fin 0)]))
   \<and> compileAndRun english [] ''print(5 % 0);'' = Some (Inr [''NaN''])
   \<and> compileAndRun english [] ''print(5 / 0);'' = Some (Inl DivisionByZero)
   \<and> executeInstruction cs MODULO s = Inr (binary (js_arith num_mod) s)"
proof -
  have a: "compile english ''print(5 % 0);''
     = Some (Inr ([LOAD_CONST 0, LOAD_CONST 1, MODULO, PRINT 1, POP, HALT],
                  [JNum (Fin 5), JNum (Fin 0)]))"
    by code_simp
  have b: "compileAndRun english [] ''print(5 % 0);'' = Some (Inr [''NaN''])"
    by code_simp
  have c: "compileAndRun english [] ''print(5 / 0);'' = Some (Inl DivisionByZero)"
    by code_simp
  show ?thesis using a b c by simp
qed

text \<open>
  Claim C3 on the code. \<open>var x = 1;\<close> compiles to a load and a \<open>STORE_VAR\<close> with no \<open>POP\<close>
  after it, and the run ends with the value still on the stack: the depth is one. The
  assignment statement \<open>x = 1;\<close> has the \<open>POP\<close>.
\<close>

theorem var_declaration_leaves_value:
  "compile english ''var x = 1;''
     = Some (Inr ([LOAD_CONST 0, STORE_VAR 0, HALT], [JNum (Fin 1)]))
   \<and> run [LOAD_CONST 0, STORE_VAR 0, HALT] [JNum (Fin 1)] (new_vm [])
     = Some (\<lparr>stack = [JNum (Fin 1)], vm_variables = [JNum (Fin 1)], callStack = [],
              pc = 3, output = [], prompts = []\<rparr>, None)
   \<and> compile english ''x = 1;''
     = Some (Inr ([LOAD_CONST 0, STORE_VAR 0, POP, HALT], [JNum (Fin 1)]))"
proof -
  have a: "compile english ''var x = 1;''
     = Some (Inr ([LOAD_CONST 0, STORE_VAR 0, HALT], [JNum (Fin 1)]))"
    by code_simp
  have b: "run [LOAD_CONST 0, STORE_VAR 0, HALT] [JNum (Fin 1)] (new_vm [])
     = Some (\<lparr>stack = [JNum (Fin 1)], vm_variables = [JNum (Fin 1)], callStack = [],
              pc = 3, output = [], prompts = []\<rparr>, None)"
    by code_simp
  have c: "compile english ''x = 1;''
     = Some (Inr ([LOAD_CONST 0, STORE_VAR 0, POP, HALT], [JNum (Fin 1)]))"
    by code_simp
  show ?thesis using a b c by simp
qed

text \<open>
  Claim C2 on the code. A function declaration compiles to its body at the place of the
  declaration, with no jump before it and no \<open>HALT\<close> between the main program and it. The
  run of \<open>function f() { print(1); }\<close>, which calls nothing, starts in the body of \<open>f\<close>,
  prints its line and fails at its \<open>RETURN\<close>.
\<close>

theorem function_body_runs_at_top_level:
  "compile english ''function f() { print(1); }''
     = Some (Inr ([LOAD_CONST 0, PRINT 1, POP, LOAD_CONST 1, RETURN, HALT],
                  [JNum (Fin 1), JNull]))
   \<and> execute [] ([LOAD_CONST 0, PRINT 1, POP, LOAD_CONST 1, RETURN, HALT],
                  [JNum (Fin 1), JNull])
     = Some ([''1''], Some (UnknownOpcode ''RETURN''))"
proof -
  have a: "compile english ''function f() { print(1); }''
     = Some (Inr ([LOAD_CONST 0, PRINT 1, POP, LOAD_CONST 1, RETURN, HALT],
                  [JNum (Fin 1), JNull]))"
    by code_simp
  have b: "execute [] ([LOAD_CONST 0, PRINT 1, POP, LOAD_CONST 1, RETURN, HALT],
                  [JNum (Fin 1), JNull])
     = Some ([''1''], Some (UnknownOpcode ''RETURN''))"
    by code_simp
  show ?thesis using a b by simp
qed

text \<open>
  Claim C1 on the code. The factorial program compiles, with the body of \<open>fact\<close> first.
  The run starts in that body with \<open>undefined\<close> for \<open>n\<close>, takes the \<open>else\<close> branch and stops
  at the first \<open>CALL\<close>, which the virtual machine does not know, as it does not know
  \<open>RETURN\<close>: no line is printed.
\<close>

theorem fact_program_stops_at_call:
  "compile english
     ''function fact(n) { if (n <= 1) { return 1; } else { return n * fact(n - 1); } } print(fact(5));''
     = Some (Inr ([STORE_VAR 0, LOAD_VAR 0, LOAD_CONST 0, LESS_EQUAL, JUMP_IF_FALSE 8,
                   LOAD_CONST 0, RETURN, JUMP 16, LOAD_VAR 0, LOAD_VAR 0, LOAD_CONST 0,
                   SUBTRACT, LOAD_CONST 1, CALL 1, MULTIPLY, RETURN, LOAD_CONST 2, RETURN,
                   LOAD_CONST 3, LOAD_CONST 1, CALL 1, PRINT 1, POP, HALT],
                  [JNum (Fin 1), JNum (Fin 0), JNull, JNum (Fin 5)]))
   \<and> execute []
        ([STORE_VAR 0, LOAD_VAR 0, LOAD_CONST 0, LESS_EQUAL, JUMP_IF_FALSE 8,
          LOAD_CONST 0, RETURN, JUMP 16, LOAD_VAR 0, LOAD_VAR 0, LOAD_CONST 0,
          SUBTRACT, LOAD_CONST 1, CALL 1, MULTIPLY, RETURN, LOAD_CONST 2, RETURN,
          LOAD_CONST 3, LOAD_CONST 1, CALL 1, PRINT 1, POP, HALT],
         [JNum (Fin 1), JNum (Fin 0), JNull, JNum (Fin 5)])
     = Some ([], Some (UnknownOpcode ''CALL''))
   \<and> compileAndRun english []
     ''function fact(n) { if (n <= 1) { return 1; } else { return n * fact(n - 1); } } print(fact(5));''
     = Some (Inl (UnknownOpcode ''CALL''))
   \<and> executeInstruction cs (CALL n) s = Inl (UnknownOpcode ''CALL'')
   \<and> executeInstruction cs RETURN s = Inl (UnknownOpcode ''RETURN'')"
proof -
  have a: "compile english
     ''function fact(n) { if (n <= 1) { return 1; } else { return n * fact(n - 1); } } print(fact(5));''
     = Some (Inr ([STORE_VAR 0, LOAD_VAR 0, LOAD_CONST 0, LESS_EQUAL, JUMP_IF_FALSE 8,
                   LOAD_CONST 0, RETURN, JUMP 16, LOAD_VAR 0, LOAD_VAR 0, LOAD_CONST 0,
                   SUBTRACT, LOAD_CONST 1, CALL 1, MULTIPLY, RETURN, LOAD_CONST 2, RETURN,
                   LOAD_CONST 3, LOAD_CONST 1, CALL 1, PRINT 1, POP, HALT],
                  [JNum (Fin 1), JNum (Fin 0), JNull, JNum (Fin 5)]))"
    by code_simp
  have b: "execute []
        ([STORE_VAR 0, LOAD_VAR 0, LOAD_CONST 0, LESS_EQUAL, JUMP_IF_FALSE 8,
          LOAD_CONST 0, RETURN, JUMP 16, LOAD_VAR 0, LOAD_VAR 0, LOAD_CONST 0,
          SUBTRACT, LOAD_CONST 1, CALL 1, MULTIPLY, RETURN, LOAD_CONST 2, RETURN,
          LOAD_CONST 3, LOAD_CONST 1, CALL 1, PRINT 1, POP, HALT],
         [JNum (Fin 1), JNum (Fin 0), JNull, JNum (Fin 5)])
     = Some ([], Some (UnknownOpcode ''CALL''))"
    by code_simp
  have c: "compileAndRun english []
     ''function fact(n) { if (n <= 1) { return 1; } else { return n * fact(n - 1); } } print(fact(5));''
     = Some (Inl (UnknownOpcode ''CALL''))"
    by code_simp
  show ?thesis using a b c by simp
qed

section \<open>Properties of the lexer, the parser and the language table\<close>

lemma read_while_run:
  "(\<And>c. cls c \<Longrightarrow> c \<noteq> CHR 0x0A) \<Longrightarrow>
   read_while cls s val =
     (s\<lparr>source := dropWhile cls (source s),
        column := column s + length (takeWhile cls (source s))\<rparr>,
      val @ takeWhile cls (source s))"
proof (induction cls s val rule: read_while.induct)
  case (1 cls s val)
  show ?case
  proof (cases "source s")
    case Nil
    then show ?thesis by (subst read_while.simps) simp
  next
    case (Cons c rest)
    show ?thesis
    proof (cases "cls c")
      case True
      have nl: "c \<noteq> CHR 0x0A" using "1.prems" True by blast
      have adv: "advance s = s\<lparr>source := rest, column := column s + 1\<rparr>"
        using Cons nl by (simp add: advance_def)
      have "read_while cls s val = read_while cls (advance s) (val @ [c])"
        using Cons True by (subst read_while.simps) simp
      also have "\<dots> = ((advance s)\<lparr>source := dropWhile cls (source (advance s)),
          column := column (advance s) + length (takeWhile cls (source (advance s)))\<rparr>,
          (val @ [c]) @ takeWhile cls (source (advance s)))"
        using "1.IH"[OF Cons True "1.prems"] by simp
      finally show ?thesis using Cons True by (simp add: adv)
    next
      case False
      have "read_while cls s val = (s, val)"
        using Cons False by (subst read_while.simps) simp
      then show ?thesis using Cons False by simp
    qed
  qed
qed

lemma number_char_not_newline: "is_number_char c \<Longrightarrow> c \<noteq> CHR 0x0A"
  by (auto simp: is_number_char_def is_digit_def)

lemma digit_not_space: "is_digit c \<Longrightarrow> \<not> (c = CHR '' '' \<or> c = CHR 0x09 \<or> c = CHR 0x0D)"
  by (auto simp: is_digit_def)

lemma readNumber_run:
  "readNumber s =
     (\<lparr>ttype = T_NUMBER, tvalue = takeWhile is_number_char (source s),
       tline = line s, tcolumn = column s\<rparr>,
      s\<lparr>source := dropWhile is_number_char (source s),
        column := column s + length (takeWhile is_number_char (source s))\<rparr>)"
  by (simp add: readNumber_def read_while_run[OF number_char_not_newline])

lemma tokenize_loop_number:
  assumes "source s = c # rest" and "is_digit c"
  shows "tokenize_loop lang s tokens =
     tokenize_loop lang
       (s\<lparr>source := dropWhile is_number_char (source s),
          column := column s + length (takeWhile is_number_char (source s))\<rparr>)
       (tokens @ [\<lparr>ttype = T_NUMBER, tvalue = takeWhile is_number_char (source s),
                    tline = line s, tcolumn = column s\<rparr>])"
proof -
  have sk: "skipWhitespace s = s"
    using assms digit_not_space[OF assms(2)] by (subst skipWhitespace.simps) simp
  show ?thesis
    by (subst tokenize_loop.simps) (simp add: sk assms readNumber_run Let_def)
qed

lemma primary_number:
  assumes "cur < length ts" and "ttype (ts ! cur) = T_NUMBER"
  shows "primary ex ts cur =
     Parsed (Literal (JNum (parseFloat (tvalue (ts ! cur)))) LNumber) (Suc cur)"
  using assms
  by (simp add: primary_def check_def isAtEnd_def peek_def advance_token_def previous_def)

text \<open>
  Claim C9, as stated, at a concrete input: the lexeme \<open>1.2.3\<close> has two dots, and the
  program that compares it with \<open>1.2\<close> runs to its end with no error at any stage and
  prints \<open>true\<close>: the parser has read the lexeme as 1.2.
\<close>

theorem multi_dot_counterexample:
  "compileAndRun english [] ''print(1.2.3 == 1.2);'' = Some (Inr [''true''])"
  by code_simp

text \<open>
  Claim C9, amended. Where the text starts with a digit, the lexer makes one \<open>NUMBER\<close>
  token of the longest run of digits and dots, whatever the number of dots, and goes on
  after it. The parser turns a \<open>NUMBER\<close> token into a literal with \<open>parseFloat\<close>, which
  reads the longest prefix that is a decimal literal: \<open>1.2.3\<close> is the number 1.2, and
  \<open>print(1.2.3);\<close> prints \<open>1.2\<close> with no error.
\<close>

theorem number_lexeme_read_by_parseFloat:
  "(source s = c # rest \<and> is_digit c \<longrightarrow>
      tokenize_loop lang s tokens =
        tokenize_loop lang
          (s\<lparr>source := dropWhile is_number_char (source s),
             column := column s + length (takeWhile is_number_char (source s))\<rparr>)
          (tokens @ [\<lparr>ttype = T_NUMBER, tvalue = takeWhile is_number_char (source s),
                       tline = line s, tcolumn = column s\<rparr>]))
   \<and> (cur < length ts \<and> ttype (ts ! cur) = T_NUMBER \<longrightarrow>
        primary ex ts cur =
          Parsed (Literal (JNum (parseFloat (tvalue (ts ! cur)))) LNumber) (Suc cur))
   \<and> parseFloat ''1.2.3'' = Fin (6 / 5)
   \<and> tokenize english ''1.2.3;''
     = [\<lparr>ttype = T_NUMBER, tvalue = ''1.2.3'', tline = 1, tcolumn = 1\<rparr>,
        \<lparr>ttype = T_SEMICOLON, tvalue = '';'', tline = 1, tcolumn = 6\<rparr>,
        \<lparr>ttype = T_EOF, tvalue = [], tline = 1, tcolumn = 7\<rparr>]
   \<and> compileAndRun english [] ''print(1.2.3);'' = Some (Inr [''1.2''])"
proof -
  have a: "parseFloat ''1.2.3'' = Fin (6 / 5)"
    by code_simp
  have b: "tokenize english ''1.2.3;''
     = [\<lparr>ttype = T_NUMBER, tvalue = ''1.2.3'', tline = 1, tcolumn = 1\<rparr>,
        \<lparr>ttype = T_SEMICOLON, tvalue = '';'', tline = 1, tcolumn = 6\<rparr>,
        \<lparr>ttype = T_EOF, tvalue = [], tline = 1, tcolumn = 7\<rparr>]"
    by code_simp
  have c: "compileAndRun english [] ''print(1.2.3);'' = Some (Inr [''1.2''])"
    by code_simp
  show ?thesis
    using a b c tokenize_loop_number[of s c rest lang tokens] primary_number[of cur ts ex]
    by blast
qed

theorem number_lexeme_read_by_parseFloat_witness:
  "source \<lparr>source = ''1.2.3;'', line = 1, column = 1\<rparr> = CHR ''1'' # ''.2.3;''
   \<and> is_digit (CHR ''1'')
   \<and> tokenize_loop english \<lparr>source = ''1.2.3;'', line = 1, column = 1\<rparr> []
     = tokenize_loop english \<lparr>source = '';'', line = 1, column = 6\<rparr>
         [\<lparr>ttype = T_NUMBER, tvalue = ''1.2.3'', tline = 1, tcolumn = 1\<rparr>]
   \<and> primary (\<lambda>c. NoFuel)
        [\<lparr>ttype = T_NUMBER, tvalue = ''1.2.3'', tline = 1, tcolumn = 1\<rparr>,
         \<lparr>ttype = T_SEMICOLON, tvalue = '';'', tline = 1, tcolumn = 6\<rparr>,
         \<lparr>ttype = T_EOF, tvalue = [], tline = 1, tcolumn = 7\<rparr>] 0
     = Parsed (Literal (JNum (Fin (6 / 5))) LNumber) 1"
proof -
  let ?s = "\<lparr>source = ''1.2.3;'', line = 1, column = 1\<rparr>"
  let ?ts = "[\<lparr>ttype = T_NUMBER, tvalue = ''1.2.3'', tline = 1, tcolumn = 1\<rparr>,
         \<lparr>ttype = T_SEMICOLON, tvalue = '';'', tline = 1, tcolumn = 6\<rparr>,
         \<lparr>ttype = T_EOF, tvalue = [], tline = 1, tcolumn = 7\<rparr>]"
  have h1: "source ?s = CHR ''1'' # ''.2.3;''" by simp
  have h2: "is_digit (CHR ''1'')" by (simp add: is_digit_def)
  have tw: "takeWhile is_number_char ''1.2.3;'' = ''1.2.3''"
    by (simp add: is_number_char_def is_digit_def)
  have dw: "dropWhile is_number_char ''1.2.3;'' = '';''"
    by (simp add: is_number_char_def is_digit_def)
  have h3: "(0::nat) < length ?ts \<and> ttype (?ts ! 0) = T_NUMBER" by simp
  note t = number_lexeme_read_by_parseFloat[where s = ?s and c = "CHR ''1''"
      and rest = "''.2.3;''" and lang = english and tokens = "[]" and cur = 0 and ts = ?ts
      and ex = "\<lambda>c. NoFuel"]
  from t h1 h2 have "tokenize_loop english ?s [] =
        tokenize_loop english
          (?s\<lparr>source := dropWhile is_number_char (source ?s),
             column := column ?s + length (takeWhile is_number_char (source ?s))\<rparr>)
          ([] @ [\<lparr>ttype = T_NUMBER, tvalue = takeWhile is_number_char (source ?s),
                       tline = line ?s, tcolumn = column ?s\<rparr>])"
    by blast
  then have "tokenize_loop english ?s [] =
        tokenize_loop english
          \<lparr>source = dropWhile is_number_char ''1.2.3;'', line = 1,
             column = 1 + length (takeWhile is_number_char ''1.2.3;'')\<rparr>
          [\<lparr>ttype = T_NUMBER, tvalue = takeWhile is_number_char ''1.2.3;'',
             tline = 1, tcolumn = 1\<rparr>]"
    by (simp del: takeWhile.simps dropWhile.simps)
  then have l: "tokenize_loop english ?s []
     = tokenize_loop english \<lparr>source = '';'', line = 1, column = 6\<rparr>
         [\<lparr>ttype = T_NUMBER, tvalue = ''1.2.3'', tline = 1, tcolumn = 1\<rparr>]"
    unfolding tw dw by (simp add: eval_nat_numeral)
  from t h3 have "primary (\<lambda>c. NoFuel) ?ts 0 =
          Parsed (Literal (JNum (parseFloat (tvalue (?ts ! 0)))) LNumber) (Suc 0)"
    by blast
  moreover from t have "parseFloat ''1.2.3'' = Fin (6 / 5)" by blast
  ultimately have p: "primary (\<lambda>c. NoFuel) ?ts 0 = Parsed (Literal (JNum (Fin (6 / 5))) LNumber) 1"
    by simp
  show ?thesis using h1 h2 l p by blast
qed

lemma table_print_names:
  assumes "lang \<in> set getAllLanguages" and "map_of (keywords lang) ''print'' = Some name"
  shows "name = ''print'' \<or> name = ''achchidu''"
  using assms
  by (auto simp: getAllLanguages_def LANGUAGES_def english_def tamil_def malayalam_def
      telugu_def hindi_def sanskrit_def)

lemma visit_print_call:
  assumes "name = ''print'' \<or> name = ''achchidu''"
  shows "visit (CallExpression (Identifier name) args) g =
     (case visit_all args g of
        Inl err \<Rightarrow> Inl err
      | Inr g1 \<Rightarrow> Inr (emit (PRINT (length args)) g1))"
  using assms by auto

text \<open>
  Claim C7, amended. In Hindi mode the table spells the built-in print \<open>print\<close>, and
  \<open>agar (1 < 2) { print("ok"); }\<close> prints the one line \<open>ok\<close>. For every language of the
  table, a call of the name that the table gives for \<open>print\<close> compiles to the arguments
  followed by \<open>PRINT\<close> with their number.
\<close>

theorem table_print_is_builtin:
  "map_of (keywords hindi) ''print'' = Some ''print''
   \<and> compile hindi ''agar (1 < 2) { print(\"ok\"); }''
     = Some (Inr ([LOAD_CONST 0, LOAD_CONST 1, LESS_THAN, JUMP_IF_FALSE 7,
                   LOAD_CONST 2, PRINT 1, POP, HALT],
                  [JNum (Fin 1), JNum (Fin 2), JStr ''ok'']))
   \<and> compileAndRun hindi [] ''agar (1 < 2) { print(\"ok\"); }'' = Some (Inr [''ok''])
   \<and> (\<forall>lang \<in> set getAllLanguages. \<forall>name.
        map_of (keywords lang) ''print'' = Some name \<longrightarrow>
        visit (CallExpression (Identifier name) args) g =
          (case visit_all args g of
             Inl err \<Rightarrow> Inl err
           | Inr g1 \<Rightarrow> Inr (emit (PRINT (length args)) g1)))"
proof -
  have a: "map_of (keywords hindi) ''print'' = Some ''print''"
    by (simp add: hindi_def)
  have b: "compile hindi ''agar (1 < 2) { print(\"ok\"); }''
     = Some (Inr ([LOAD_CONST 0, LOAD_CONST 1, LESS_THAN, JUMP_IF_FALSE 7,
                   LOAD_CONST 2, PRINT 1, POP, HALT],
                  [JNum (Fin 1), JNum (Fin 2), JStr ''ok'']))"
    by code_simp
  have c: "compileAndRun hindi [] ''agar (1 < 2) { print(\"ok\"); }'' = Some (Inr [''ok''])"
    by code_simp
  have d: "\<forall>lang \<in> set getAllLanguages. \<forall>name.
        map_of (keywords lang) ''print'' = Some name \<longrightarrow>
        visit (CallExpression (Identifier name) args) g =
          (case visit_all args g of
             Inl err \<Rightarrow> Inl err
           | Inr g1 \<Rightarrow> Inr (emit (PRINT (length args)) g1))"
    using table_print_names visit_print_call by blast
  show ?thesis using a b c d by blast
qed

theorem table_print_is_builtin_witness:
  "hindi \<in> set getAllLanguages
   \<and> map_of (keywords hindi) ''print'' = Some ''print''
   \<and> visit (CallExpression (Identifier ''print'') [Literal (JStr ''ok'') LString]) new_gen
     = Inr \<lparr>instructions = [LOAD_CONST 0, PRINT 1], constants = [JStr ''ok''],
            variables = [], functions = []\<rparr>"
proof -
  have m: "hindi \<in> set getAllLanguages"
    by (simp add: getAllLanguages_def LANGUAGES_def)
  have k: "map_of (keywords hindi) ''print'' = Some ''print''"
    by (simp add: hindi_def)
  have e: "(case visit_all [Literal (JStr ''ok'') LString] new_gen of
              Inl err \<Rightarrow> Inl err
            | Inr g1 \<Rightarrow> Inr (emit (PRINT (length [Literal (JStr ''ok'') LString])) g1))
     = Inr \<lparr>instructions = [LOAD_CONST 0, PRINT 1], constants = [JStr ''ok''],
            variables = [], functions = []\<rparr>"
    by code_simp
  from table_print_is_builtin[where args = "[Literal (JStr ''ok'') LString]" and g = new_gen]
  have "\<forall>lang \<in> set getAllLanguages. \<forall>name.
        map_of (keywords lang) ''print'' = Some name \<longrightarrow>
        visit (CallExpression (Identifier name) [Literal (JStr ''ok'') LString]) new_gen =
          (case visit_all [Literal (JStr ''ok'') LString] new_gen of
             Inl err \<Rightarrow> Inl err
           | Inr g1 \<Rightarrow> Inr (emit (PRINT (length [Literal (JStr ''ok'') LString])) g1))"
    by blast
  with m k have "visit (CallExpression (Identifier ''print'') [Literal (JStr ''ok'') LString]) new_gen =
          (case visit_all [Literal (JStr ''ok'') LString] new_gen of
             Inl err \<Rightarrow> Inl err
           | Inr g1 \<Rightarrow> Inr (emit (PRINT (length [Literal (JStr ''ok'') LString])) g1))"
    by blast
  with e m k show ?thesis by simp
qed

text \<open>
  Claim C7, as stated, at its own input: in Hindi mode \<open>dikhaao\<close> is an identifier like
  any other, neither a variable nor a function, and the generator rejects the program.
\<close>

theorem hindi_dikhaao_counterexample:
  "compileAndRun hindi [] ''agar (1 < 2) { dikhaao(\"ok\"); }''
     = Some (Inl (UndefinedVariable ''dikhaao''))"
  by code_simp

end
